theory Spec2Isabelle
  imports Complex_Main "HOL-Library.Sublist" "HOL-Library.Multiset" "HOL-Library.Word"
begin

section \<open>Python values used by the bot\<close>

text \<open>
  A Python \<open>str\<close> is a sequence of Unicode code points; \<open>len\<close>, slicing, \<open>in\<close> and
  \<open>strip\<close> all count code points. The literals of the source are mostly Chinese, so a
  string is modelled as the list of its code points. ASCII literals are written with
  \<open>ascii\<close>; every other character is written as its code point in hexadecimal.
\<close>

type_synonym pystr = "nat list"

type_synonym bytes = "8 word list"

definition ascii :: "string \<Rightarrow> pystr" where
  "ascii s = map of_char s"

text \<open>
  \<open>str.isspace\<close> for one code point. \<open>str.strip()\<close> and the class \<open>\s\<close> of
  \<open>re\<close> on a \<open>str\<close> pattern both use this set of code points.
\<close>

definition isspace :: "nat \<Rightarrow> bool" where
  "isspace c =
     ((0x9 \<le> c \<and> c \<le> 0xD) \<or> (0x1C \<le> c \<and> c \<le> 0x20) \<or> c = 0x85 \<or> c = 0xA0 \<or>
      c = 0x1680 \<or> (0x2000 \<le> c \<and> c \<le> 0x200A) \<or> c = 0x2028 \<or> c = 0x2029 \<or>
      c = 0x202F \<or> c = 0x205F \<or> c = 0x3000)"

definition strip :: "pystr \<Rightarrow> pystr" where
  "strip s = rev (dropWhile isspace (rev (dropWhile isspace s)))"

text \<open>\<open>sub in s\<close> on strings: \<open>sub\<close> occurs in \<open>s\<close> as a contiguous run.\<close>

fun contains :: "pystr \<Rightarrow> pystr \<Rightarrow> bool" where
  "contains [] sub = (sub = [])"
| "contains (c # cs) sub = (prefix sub (c # cs) \<or> contains cs sub)"

text \<open>\<open>sep.join(parts)\<close>.\<close>

fun join :: "pystr \<Rightarrow> pystr list \<Rightarrow> pystr" where
  "join sep [] = []"
| "join sep [p] = p"
| "join sep (p # q # ps) = p @ sep @ join sep (q # ps)"

text \<open>
  \<open>str.lower()\<close>, on the ASCII letters only. No code point outside ASCII lowercases to a
  letter of \<open>gemini\<close>, \<open>openai\<close>, \<open>claude\<close> or \<open>custom\<close> (the only one that
  lowercases to an ASCII letter is U+212A, to \<open>k\<close>), so the comparisons of
  \<open>ModelService.initialize\<close> come out as in Python.
\<close>

definition lower :: "pystr \<Rightarrow> pystr" where
  "lower s = map (\<lambda>c. if 0x41 \<le> c \<and> c \<le> 0x5A then c + 0x20 else c) s"

text \<open>\<open>str(n)\<close> for an \<open>int\<close>: decimal digits, with a minus sign below zero.\<close>

fun digits :: "nat \<Rightarrow> pystr" where
  "digits n = (if n < 10 then [0x30 + n] else digits (n div 10) @ [0x30 + n mod 10])"

definition str_int :: "int \<Rightarrow> pystr" where
  "str_int i = (if i < 0 then 0x2D # digits (nat (- i)) else digits (nat i))"

text \<open>
  The values \<open>json.loads\<close> builds. A \<open>dict\<close> keeps its items in insertion order; its
  keys are distinct. Floats are opaque: no function of the bot looks into one.
\<close>

typedecl pyfloat

datatype pyval =
    PNone
  | PBool bool
  | PInt int
  | PFloat pyfloat
  | PStr pystr
  | PList "pyval list"
  | PDict "(pystr \<times> pyval) list"

text \<open>The exceptions the modelled code raises or catches.\<close>

datatype exn =
    ValueError
  | ImportError
  | KeyError
  | TypeError
  | IndexError
  | JSONDecodeError
  | ProviderError
  | OtherError

text \<open>\<open>d[key]\<close> with a string key: only a \<open>dict\<close> takes one.\<close>

fun subscript :: "pyval \<Rightarrow> pystr \<Rightarrow> exn + pyval" where
  "subscript (PDict items) key =
     (case map_of items key of None \<Rightarrow> Inl KeyError | Some v \<Rightarrow> Inr v)"
| "subscript _ key = Inl TypeError"

text \<open>\<open>x + [y]\<close>: defined when \<open>x\<close> is a \<open>list\<close>, a \<open>TypeError\<close> otherwise.\<close>

fun add_list :: "pyval \<Rightarrow> pyval list \<Rightarrow> exn + pyval list" where
  "add_list (PList xs) ys = Inr (xs @ ys)"
| "add_list _ ys = Inl TypeError"

text \<open>Truth value of an optional string: \<open>None\<close> and \<open>''\<close> are false.\<close>

definition truthy :: "pystr option \<Rightarrow> bool" where
  "truthy s = (case s of None \<Rightarrow> False | Some t \<Rightarrow> t \<noteq> [])"

section \<open>The module \<open>random\<close>\<close>

text \<open>
  The generator is the sequence of its future raw draws. \<open>_randbelow(n)\<close> consumes one
  draw and returns a number below \<open>n\<close>; every outcome is reachable by some sequence.
  \<open>random.choice\<close> and \<open>random.shuffle\<close> are CPython's: \<open>choice\<close> indexes with one
  draw (and raises \<open>IndexError\<close> on an empty sequence), \<open>shuffle\<close> runs
  \<open>for i in reversed(range(1, len(x))): j = randbelow(i + 1); x[i], x[j] = x[j], x[i]\<close>.
\<close>

type_synonym rng = "nat list"

definition randbelow :: "nat \<Rightarrow> rng \<Rightarrow> nat \<times> rng" where
  "randbelow n g = (case g of [] \<Rightarrow> (0, []) | d # g' \<Rightarrow> (d mod n, g'))"

definition choice :: "'a list \<Rightarrow> rng \<Rightarrow> (exn + 'a) \<times> rng" where
  "choice seq g =
     (if seq = [] then (Inl IndexError, g)
      else (let (i, g') = randbelow (length seq) g in (Inr (seq ! i), g')))"

fun shuffle_loop :: "nat \<Rightarrow> 'a list \<Rightarrow> rng \<Rightarrow> 'a list \<times> rng" where
  "shuffle_loop 0 x g = (x, g)"
| "shuffle_loop (Suc i) x g =
     (let (j, g') = randbelow (Suc i + 1) g
      in shuffle_loop i (x[Suc i := x ! j, j := x ! Suc i]) g')"

definition shuffle :: "'a list \<Rightarrow> rng \<Rightarrow> 'a list \<times> rng" where
  "shuffle x g = shuffle_loop (length x - 1) x g"

section \<open>Objects of the chat platform\<close>

text \<open>
  A \<open>telegram.Message\<close> as the bot reads it. Of a media object (\<open>PhotoSize\<close>,
  \<open>Animation\<close>, \<open>Video\<close>, \<open>Document\<close>, \<open>Audio\<close>, \<open>Voice\<close>, \<open>VideoNote\<close>,
  \<open>Sticker\<close>) only \<open>file_id\<close> is read; such an object is always true, so an optional
  media field is true exactly when it is present. \<open>photo\<close> is the tuple of sizes, empty
  when the message has no photo. The field \<open>msg_text\<close> is \<open>message.text\<close>.
\<close>

datatype entity = MessageEntity (etype: pystr) (offset: nat) (elength: nat)

datatype file_ref = FileRef (file_id: pystr)

record message =
  msg_text :: "pystr option"
  entities :: "entity list"
  photo :: "file_ref list"
  animation :: "file_ref option"
  video :: "file_ref option"
  document :: "file_ref option"
  audio :: "file_ref option"
  voice :: "file_ref option"
  video_note :: "file_ref option"
  sticker :: "file_ref option"
  caption :: "pystr option"
  caption_entities :: "entity list"
  is_topic_message :: bool
  message_thread_id :: "int option"

text \<open>
  The outbound calls on \<open>context.bot\<close>, with their keyword arguments. An argument the
  call site does not pass is \<open>None\<close> here, which is also the platform library's default
  for \<open>message_thread_id\<close> and \<open>disable_web_page_preview\<close>.
\<close>

datatype bot_call =
    SendMessage int pystr "entity list" "int option" "bool option"
  | SendPhoto int pystr "pystr option" "entity list" "int option"
  | SendAnimation int pystr "pystr option" "entity list" "int option"
  | SendVideo int pystr "pystr option" "entity list" "int option"
  | SendDocument int pystr "pystr option" "entity list" "int option"
  | SendAudio int pystr "pystr option" "entity list" "int option"
  | SendVoice int pystr "pystr option" "entity list" "int option"
  | SendVideoNote int pystr "int option"
  | SendSticker int pystr "int option"

section \<open>\<open>services/model_service.py\<close>\<close>

text \<open>
  The four adapters. An adapter object keeps the key and the base URL it was built with;
  its SDK client is a function of the two and is not represented. No call site of the
  repository passes extra keyword arguments, so \<open>kwargs\<close> is left out.
\<close>

datatype adapter =
    GeminiAdapter (api_key: pystr) (base_url: "pystr option")
  | OpenAIAdapter (api_key: pystr) (base_url: "pystr option")
  | AnthropicAdapter (api_key: pystr) (base_url: "pystr option")
  | CustomAPIAdapter (api_key: pystr) (base_url: "pystr option")

datatype sdk = GoogleGenAI | OpenAI | Anthropic

text \<open>
  The object \<open>Image.open\<close> returns. \<open>Image.open\<close> is lazy: it identifies the file from
  its header and does not decode the pixel data, so the object stands for the bytes it
  was opened from.
\<close>

datatype image = Image (image_data: bytes)

datatype content = TextPart pystr | ImagePart image

text \<open>One request to a provider: the adapter, the \<open>model\<close> argument, the \<open>contents\<close>.\<close>

type_synonym api_call = "adapter \<times> pystr option \<times> content list"

text \<open>
  What lies outside the repository. \<open>client_error\<close>: the exception that importing an SDK
  and building its client raises, if any. \<open>adapter_generate_content\<close>: the outcome of one
  adapter's \<open>generate_content\<close>, an exception or the text (Gemini's first part may carry
  no text). \<open>json_loads\<close>: \<open>json.loads\<close>, which raises \<open>JSONDecodeError\<close> on malformed
  text. \<open>image_open\<close>: \<open>Image.open(io.BytesIO(b))\<close>, \<open>None\<close> when it raises.
  \<open>image_decodes\<close>: whether the pixel data of an opened image decodes; no function of the
  repository asks.
\<close>

record env =
  client_error :: "sdk \<Rightarrow> exn option"
  adapter_generate_content :: "adapter \<Rightarrow> pystr option \<Rightarrow> content list \<Rightarrow> exn + pystr option"
  json_loads :: "pystr \<Rightarrow> exn + pyval"
  image_open :: "bytes \<Rightarrow> image option"
  image_decodes :: "image \<Rightarrow> bool"

definition new_GeminiAdapter :: "env \<Rightarrow> pystr \<Rightarrow> pystr option \<Rightarrow> exn + adapter" where
  "new_GeminiAdapter env key url =
     (case client_error env GoogleGenAI of
        Some e \<Rightarrow> Inl e
      | None \<Rightarrow> Inr (GeminiAdapter key url))"

definition new_OpenAIAdapter :: "env \<Rightarrow> pystr \<Rightarrow> pystr option \<Rightarrow> exn + adapter" where
  "new_OpenAIAdapter env key url =
     (case client_error env OpenAI of
        Some e \<Rightarrow> Inl e
      | None \<Rightarrow> Inr (OpenAIAdapter key url))"

definition new_AnthropicAdapter :: "env \<Rightarrow> pystr \<Rightarrow> pystr option \<Rightarrow> exn + adapter" where
  "new_AnthropicAdapter env key url =
     (case client_error env Anthropic of
        Some e \<Rightarrow> Inl e
      | None \<Rightarrow> Inr (AnthropicAdapter key url))"

definition new_CustomAPIAdapter :: "env \<Rightarrow> pystr \<Rightarrow> pystr option \<Rightarrow> exn + adapter" where
  "new_CustomAPIAdapter env key url =
     (if \<not> truthy url then Inl ValueError
      else (case client_error env OpenAI of
              Some e \<Rightarrow> Inl e
            | None \<Rightarrow> Inr (CustomAPIAdapter key url)))"

record model_service =
  adapter :: "adapter option"
  filter_model_name :: "pystr option"
  verification_model_name :: "pystr option"

text \<open>\<open>a or b\<close> on optional strings.\<close>

definition py_or :: "pystr option \<Rightarrow> pystr option \<Rightarrow> pystr option" where
  "py_or a b = (if truthy a then a else b)"

text \<open>
  \<open>ModelService.initialize\<close>. The result pairs the outcome (\<open>Inl\<close> the exception raised)
  with the service as the call leaves it. Each assignment to a field of \<open>self\<close> is one
  record update, in the order of the source; an exception leaves the updates made before
  it in place.
\<close>

definition initialize ::
  "env \<Rightarrow> model_service \<Rightarrow> pystr \<Rightarrow> pystr \<Rightarrow> pystr option \<Rightarrow> pystr option \<Rightarrow> pystr option
     \<Rightarrow> (exn + unit) \<times> model_service" where
  "initialize env self provider0 key url filter_model verification_model =
     (let provider = lower provider0 in
      if provider = ascii ''gemini'' then
        (case new_GeminiAdapter env key url of
           Inl e \<Rightarrow> (Inl e, self)
         | Inr a \<Rightarrow>
             (let self1 = self\<lparr>adapter := Some a\<rparr>;
                  self2 = self1\<lparr>filter_model_name :=
                            py_or filter_model (Some (ascii ''gemini-2.5-flash''))\<rparr>;
                  self3 = self2\<lparr>verification_model_name :=
                            py_or verification_model (Some (ascii ''gemini-2.5-flash-lite''))\<rparr>
              in (Inr (), self3)))
      else if provider = ascii ''openai'' then
        (case new_OpenAIAdapter env key url of
           Inl e \<Rightarrow> (Inl e, self)
         | Inr a \<Rightarrow>
             (let self1 = self\<lparr>adapter := Some a\<rparr>;
                  self2 = self1\<lparr>filter_model_name :=
                            py_or filter_model (Some (ascii ''gpt-4o-mini''))\<rparr>;
                  self3 = self2\<lparr>verification_model_name :=
                            py_or verification_model (Some (ascii ''gpt-4o-mini''))\<rparr>
              in (Inr (), self3)))
      else if provider = ascii ''claude'' then
        (case new_AnthropicAdapter env key url of
           Inl e \<Rightarrow> (Inl e, self)
         | Inr a \<Rightarrow>
             (let self1 = self\<lparr>adapter := Some a\<rparr>;
                  self2 = self1\<lparr>filter_model_name :=
                            py_or filter_model (Some (ascii ''claude-3-haiku-20240307''))\<rparr>;
                  self3 = self2\<lparr>verification_model_name :=
                            py_or verification_model (Some (ascii ''claude-3-haiku-20240307''))\<rparr>
              in (Inr (), self3)))
      else if provider = ascii ''custom'' then
        (if \<not> truthy url then (Inl ValueError, self)
         else
           (case new_CustomAPIAdapter env key url of
              Inl e \<Rightarrow> (Inl e, self)
            | Inr a \<Rightarrow>
                (let self1 = self\<lparr>adapter := Some a\<rparr>;
                     self2 = self1\<lparr>filter_model_name := filter_model\<rparr>;
                     self3 = self2\<lparr>verification_model_name :=
                               py_or verification_model filter_model\<rparr>
                 in if \<not> truthy (filter_model_name self3) then (Inl ValueError, self3)
                    else (Inr (), self3))))
      else (Inl ValueError, self))"

text \<open>
  \<open>ModelService.generate_content\<close>: raises when no adapter is set, and otherwise hands
  the request to the adapter. The second component lists the requests sent.
\<close>

definition generate_content ::
  "env \<Rightarrow> model_service \<Rightarrow> pystr option \<Rightarrow> content list
     \<Rightarrow> (exn + pystr option) \<times> api_call list" where
  "generate_content env self model contents =
     (case adapter self of
        None \<Rightarrow> (Inl ValueError, [])
      | Some a \<Rightarrow> (adapter_generate_content env a model contents, [(a, model, contents)]))"

section \<open>\<open>services/gemini_service.py\<close>\<close>

subsection \<open>The local question bank\<close>

text \<open>
  \<open>LOCAL_VERIFICATION_QUESTIONS\<close>, lines 10 to 40: one entry per line of the source, in
  the order of the source, each with its \<open>question\<close>, its \<open>correct_answer\<close> and its
  list of \<open>incorrect_answers\<close>.
\<close>

datatype bank_entry =
  BankEntry (bank_question: pystr) (bank_correct_answer: pystr) (bank_incorrect_answers: "pystr list")

definition LOCAL_VERIFICATION_QUESTIONS :: "bank_entry list" where
  "LOCAL_VERIFICATION_QUESTIONS = [
    BankEntry ([0x4E2D, 0x56FD, 0x7684, 0x9996, 0x90FD, 0x662F, 0x54EA, 0x91CC, 0xFF1F])
      ([0x5317, 0x4EAC])
      [[0x4E0A, 0x6D77], [0x5E7F, 0x5DDE], [0x6DF1, 0x5733]],
    BankEntry ([0x4E00, 0x5E74, 0x6709, 0x591A, 0x5C11, 0x4E2A, 0x6708, 0xFF1F])
      (ascii ''12'')
      [ascii ''10'', ascii ''11'', ascii ''13''],
    BankEntry ([0x4E00, 0x5468, 0x6709, 0x591A, 0x5C11, 0x5929, 0xFF1F])
      (ascii ''7'')
      [ascii ''5'', ascii ''6'', ascii ''8''],
    BankEntry ([0x592A, 0x9633, 0x4ECE, 0x54EA, 0x4E2A, 0x65B9, 0x5411, 0x5347, 0x8D77, 0xFF1F])
      ([0x4E1C, 0x65B9])
      [[0x897F, 0x65B9], [0x5357, 0x65B9], [0x5317, 0x65B9]],
    BankEntry ([0x6C34, 0x7684, 0x5316, 0x5B66, 0x5F0F, 0x662F, 0x4EC0, 0x4E48, 0xFF1F])
      (ascii ''H2O'')
      [ascii ''CO2'', ascii ''O2'', ascii ''NaCl''],
    BankEntry ([0x5730, 0x7403, 0x4E0A, 0x6700, 0x5927, 0x7684, 0x6D77, 0x6D0B, 0x662F, 0x54EA] @
        [0x4E2A, 0xFF1F])
      ([0x592A, 0x5E73, 0x6D0B])
      [[0x5927, 0x897F, 0x6D0B], [0x5370, 0x5EA6, 0x6D0B], [0x5317, 0x51B0, 0x6D0B]],
    BankEntry ([0x54EA, 0x4E2A, 0x989C, 0x8272, 0x662F, 0x5F69, 0x8679, 0x7684, 0x7B2C, 0x4E00] @
        [0x79CD, 0x989C, 0x8272, 0xFF1F])
      ([0x7EA2, 0x8272])
      [[0x6A59, 0x8272], [0x9EC4, 0x8272], [0x7EFF, 0x8272]],
    BankEntry ([0x4EBA, 0x4F53, 0x6709, 0x591A, 0x5C11, 0x4E2A, 0x5FC3, 0x810F, 0xFF1F])
      (ascii ''1'')
      [ascii ''2'', ascii ''3'', ascii ''4''],
    BankEntry ([0x54EA, 0x4E2A, 0x5B63, 0x8282, 0x6700, 0x70ED, 0xFF1F])
      ([0x590F, 0x5929])
      [[0x6625, 0x5929], [0x79CB, 0x5929], [0x51AC, 0x5929]],
    BankEntry ([0x54EA, 0x4E2A, 0x662F, 0x6700, 0x5927, 0x7684, 0x884C, 0x661F, 0xFF1F])
      ([0x6728, 0x661F])
      [[0x571F, 0x661F], [0x5929, 0x738B, 0x661F], [0x6D77, 0x738B, 0x661F]],
    BankEntry ([0x4E2D, 0x56FD, 0x7684, 0x56FD, 0x65D7, 0x4E0A, 0x6709, 0x51E0, 0x9897, 0x661F] @
        [0xFF1F])
      (ascii ''5'')
      [ascii ''3'', ascii ''4'', ascii ''6''],
    BankEntry ([0x54EA, 0x4E2A, 0x662F, 0x54FA, 0x4E73, 0x52A8, 0x7269, 0xFF1F])
      ([0x72D7])
      [[0x9C7C], [0x9E1F], [0x86C7]],
    BankEntry ([0x54EA, 0x4E2A, 0x662F, 0x6C34, 0x679C, 0xFF1F])
      ([0x82F9, 0x679C])
      [[0x80E1, 0x841D, 0x535C], [0x571F, 0x8C46], [0x6D0B, 0x8471]],
    BankEntry ([0x54EA, 0x4E2A, 0x662F, 0x4EA4, 0x901A, 0x5DE5, 0x5177, 0xFF1F])
      ([0x6C7D, 0x8F66])
      [[0x684C, 0x5B50], [0x6905, 0x5B50], [0x5E8A]],
    BankEntry ([0x54EA, 0x4E2A, 0x662F, 0x989C, 0x8272, 0xFF1F])
      ([0x84DD, 0x8272])
      [[0x6570, 0x5B57], [0x5B57, 0x6BCD], [0x7B26, 0x53F7]],
    BankEntry ([0x4EE5, 0x4E0B, 0x54EA, 0x4E2A, 0x4E0D, 0x5C5E, 0x4E8E, 0x884C, 0x661F, 0xFF1F])
      ([0x6708, 0x4EAE])
      [[0x5730, 0x7403], [0x706B, 0x661F], [0x91D1, 0x661F]],
    BankEntry ([0x4EE5, 0x4E0B, 0x54EA, 0x4E2A, 0x4E0D, 0x5C5E, 0x4E8E, 0x6C34, 0x679C, 0xFF1F])
      ([0x80E1, 0x841D, 0x535C])
      [[0x82F9, 0x679C], [0x9999, 0x8549], [0x6A59, 0x5B50]],
    BankEntry ([0x4EE5, 0x4E0B, 0x54EA, 0x4E2A, 0x4E0D, 0x5C5E, 0x4E8E, 0x4EA4, 0x901A, 0x5DE5] @
        [0x5177, 0xFF1F])
      ([0x623F, 0x5B50])
      [[0x6C7D, 0x8F66], [0x98DE, 0x673A], [0x706B, 0x8F66]],
    BankEntry ([0x4EE5, 0x4E0B, 0x54EA, 0x4E2A, 0x4E0D, 0x5C5E, 0x4E8E, 0x989C, 0x8272, 0xFF1F])
      ([0x6570, 0x5B57])
      [[0x7EA2, 0x8272], [0x84DD, 0x8272], [0x7EFF, 0x8272]],
    BankEntry ([0x4EE5, 0x4E0B, 0x54EA, 0x4E2A, 0x4E0D, 0x5C5E, 0x4E8E, 0x54FA, 0x4E73, 0x52A8] @
        [0x7269, 0xFF1F])
      ([0x9C7C])
      [[0x732B], [0x72D7], [0x725B]],
    BankEntry ([0x4EE5, 0x4E0B, 0x54EA, 0x4E2A, 0x4E0D, 0x5C5E, 0x4E8E, 0x852C, 0x83DC, 0xFF1F])
      ([0x82F9, 0x679C])
      [[0x767D, 0x83DC], [0x841D, 0x535C], [0x9EC4, 0x74DC]],
    BankEntry ([0x4EE5, 0x4E0B, 0x54EA, 0x4E2A, 0x4E0D, 0x5C5E, 0x4E8E, 0x9E1F, 0x7C7B, 0xFF1F])
      ([0x72D7])
      [[0x9EBB, 0x96C0], [0x9E3D, 0x5B50], [0x71D5, 0x5B50]],
    BankEntry ([0x4EE5, 0x4E0B, 0x54EA, 0x4E2A, 0x4E0D, 0x5C5E, 0x4E8E, 0x91D1, 0x5C5E, 0xFF1F])
      ([0x6728, 0x5934])
      [[0x94C1], [0x94DC], [0x94DD]],
    BankEntry ([0x4EE5, 0x4E0B, 0x54EA, 0x4E2A, 0x4E0D, 0x5C5E, 0x4E8E, 0x996E, 0x6599, 0xFF1F])
      ([0x7C73, 0x996D])
      [[0x6C34], [0x8336], [0x5496, 0x5561]],
    BankEntry ([0x4EE5, 0x4E0B, 0x54EA, 0x4E2A, 0x4E0D, 0x5C5E, 0x4E8E, 0x5B66, 0x4E60, 0x7528] @
        [0x54C1, 0xFF1F])
      ([0x7535, 0x89C6])
      [[0x7B14], [0x672C, 0x5B50], [0x6A61, 0x76AE]],
    BankEntry ([0x4EE5, 0x4E0B, 0x54EA, 0x4E2A, 0x4E0D, 0x5C5E, 0x4E8E, 0x8FD0, 0x52A8, 0x9879] @
        [0x76EE, 0xFF1F])
      ([0x7761, 0x89C9])
      [[0x8DD1, 0x6B65], [0x6E38, 0x6CF3], [0x7BEE, 0x7403]],
    BankEntry ([0x4EE5, 0x4E0B, 0x54EA, 0x4E2A, 0x4E0D, 0x5C5E, 0x4E8E, 0x5B63, 0x8282, 0xFF1F])
      ([0x661F, 0x671F])
      [[0x6625, 0x5929], [0x590F, 0x5929], [0x79CB, 0x5929]],
    BankEntry ([0x4EE5, 0x4E0B, 0x54EA, 0x4E2A, 0x4E0D, 0x5C5E, 0x4E8E, 0x65B9, 0x5411, 0xFF1F])
      ([0x4E0A, 0x4E0B])
      [[0x4E1C], [0x5357], [0x897F]],
    BankEntry ([0x4EE5, 0x4E0B, 0x54EA, 0x4E2A, 0x4E0D, 0x5C5E, 0x4E8E, 0x6570, 0x5B57, 0xFF1F])
      ([0x5B57, 0x6BCD])
      [ascii ''1'', ascii ''2'', ascii ''3'']]"

subsection \<open>Stripping code fences\<close>

text \<open>
  \<open>re.sub(r'```json\s*|\s*```', '', s)\<close>. The scan goes left to right. At a position the
  first alternative is tried first: the seven characters of the opening fence, then all
  the whitespace that follows. The second alternative takes all the whitespace at the
  position and needs three backticks right after it; giving whitespace back cannot help,
  since a backtick is no whitespace. A match is never empty; it is deleted and the scan
  goes on behind it. Where neither alternative matches, the character is kept.
\<close>

definition fence :: pystr where
  "fence = [0x60, 0x60, 0x60]"

definition fence_json :: pystr where
  "fence_json = fence @ ascii ''json''"

definition match_here :: "pystr \<Rightarrow> pystr option" where
  "match_here s =
     (if prefix fence_json s then Some (dropWhile isspace (drop (length fence_json) s))
      else (let r = dropWhile isspace s
            in if prefix fence r then Some (drop (length fence) r) else None))"

function sub_fences :: "pystr \<Rightarrow> pystr" where
  "sub_fences [] = []"
| "sub_fences (c # cs) =
     (case match_here (c # cs) of
        Some rest \<Rightarrow> sub_fences rest
      | None \<Rightarrow> c # sub_fences cs)"
  by pat_completeness auto
termination
proof (relation "measure length")
  show "wf (measure length)" by simp
next
  fix c :: nat and cs rest :: pystr
  assume m: "match_here (c # cs) = Some rest"
  have d: "length (dropWhile isspace xs) \<le> length xs" for xs :: pystr
    by (rule length_dropWhile_le)
  have "length rest < length (c # cs)"
  proof (cases "prefix fence_json (c # cs)")
    case True
    then have "rest = dropWhile isspace (drop (length fence_json) (c # cs))"
      using m by (simp add: match_here_def)
    moreover have "length (drop (length fence_json) (c # cs)) < length (c # cs)"
      by (simp add: fence_json_def fence_def ascii_def)
    ultimately show ?thesis
      using d [of "drop (length fence_json) (c # cs)"] by simp
  next
    case False
    then have r: "rest = drop (length fence) (dropWhile isspace (c # cs))"
      and p: "prefix fence (dropWhile isspace (c # cs))"
      using m by (auto simp: match_here_def Let_def split: if_splits)
    from p have "length fence \<le> length (dropWhile isspace (c # cs))"
      by (rule prefix_length_le)
    then have "length rest < length (dropWhile isspace (c # cs))"
      using r by (simp add: fence_def)
    then show ?thesis
      using d [of "c # cs"] by simp
  qed
  then show "(rest, c # cs) \<in> measure length" by simp
next
  fix c :: nat and cs :: pystr
  show "(cs, c # cs) \<in> measure length" by simp
qed

subsection \<open>The service\<close>

text \<open>
  A verdict or a question is a \<open>dict\<close>. The verdicts the service builds itself have the
  keys \<open>is_spam\<close> and \<open>reason\<close>; a question has the keys \<open>question\<close>,
  \<open>correct_answer\<close> and \<open>options\<close>, whose values on the provider path are whatever
  \<open>json.loads\<close> produced.
\<close>

definition verdict :: "bool \<Rightarrow> pystr \<Rightarrow> pyval" where
  "verdict spam reason = PDict [(ascii ''is_spam'', PBool spam), (ascii ''reason'', PStr reason)]"

record verification_question =
  question :: pyval
  correct_answer :: pyval
  options :: "pyval list"

definition analyze_prompt_parts :: "pystr list" where
  "analyze_prompt_parts = [
     [0x4F60, 0x662F, 0x4E00, 0x4E2A, 0x5185, 0x5BB9, 0x5BA1, 0x67E5, 0x5458, 0x3002] @
       [0x4F60, 0x7684, 0x4EFB, 0x52A1, 0x662F, 0x5206, 0x6790, 0x63D0, 0x4F9B, 0x7ED9] @
       [0x4F60, 0x7684, 0x6587, 0x672C, 0x548C] @ ascii ''/'' @
       [0x6216, 0x56FE, 0x7247, 0x5185, 0x5BB9, 0xFF0C, 0x5E76, 0x5224, 0x65AD, 0x5176] @
       [0x662F, 0x5426, 0x5305, 0x542B, 0x5783, 0x573E, 0x4FE1, 0x606F, 0x3001, 0x6076] @
       [0x610F, 0x8F6F, 0x4EF6, 0x3001, 0x9493, 0x9C7C, 0x94FE, 0x63A5, 0x3001, 0x4E0D] @
       [0x5F53, 0x8A00, 0x8BBA, 0x3001, 0x8FB1, 0x9A82, 0x3001, 0x653B, 0x51FB, 0x6027] @
       [0x8BCD, 0x8BED, 0x6216, 0x4EFB, 0x4F55, 0x8FDD, 0x53CD, 0x5B89, 0x5168, 0x653F] @
       [0x7B56, 0x7684, 0x5185, 0x5BB9, 0x3002],
     [0x8BF7, 0x4E25, 0x683C, 0x6309, 0x7167, 0x8981, 0x6C42, 0xFF0C, 0x4EC5, 0x4EE5] @
       ascii ''JSON'' @
       [0x683C, 0x5F0F, 0x8FD4, 0x56DE, 0x4F60, 0x7684, 0x5206, 0x6790, 0x7ED3, 0x679C] @
       [0xFF0C, 0x4E0D, 0x8981, 0x5305, 0x542B, 0x4EFB, 0x4F55, 0x989D, 0x5916, 0x7684] @
       [0x89E3, 0x91CA, 0x6216, 0x6807, 0x8BB0, 0x3002],
     ascii ''**'' @ [0x8F93, 0x51FA, 0x683C, 0x5F0F] @ ascii ''**: '' @
       [0x4F60, 0x5FC5, 0x987B, 0x4E14, 0x53EA, 0x80FD, 0x4EE5, 0x4E25, 0x683C, 0x7684] @
       ascii ''JSON'' @
       [0x683C, 0x5F0F, 0x8FD4, 0x56DE, 0x4F60, 0x7684, 0x5206, 0x6790, 0x7ED3, 0x679C] @
       [0xFF0C, 0x4E0D, 0x5F97, 0x5305, 0x542B, 0x4EFB, 0x4F55, 0x89E3, 0x91CA, 0x6027] @
       [0x6587, 0x5B57, 0x6216, 0x4EE3, 0x7801, 0x5757, 0x6807, 0x8BB0, 0x3002],
     ascii ''**JSON'' @ [0x7ED3, 0x6784] @ ascii ''**:'' @ [0xA] @ ascii ''```json'' @ [0xA] @
       ascii ''{'' @ [0xA] @ ascii ''  '' @ [0x22] @ ascii ''is_spam'' @ [0x22] @
       ascii '': boolean,'' @ [0xA] @ ascii ''  '' @ [0x22] @ ascii ''reason'' @ [0x22] @
       ascii '': '' @ [0x22] @ ascii ''string'' @ [0x22, 0xA] @ ascii ''}'' @ [0xA] @
       ascii ''```'' @ [0xA] @ ascii ''*   `is_spam`: '' @
       [0x5982, 0x679C, 0x5185, 0x5BB9, 0x8FDD, 0x53CD] @ ascii ''**'' @
       [0x4EFB, 0x4F55, 0x4E00, 0x6761] @ ascii ''**'' @
       [0x5B89, 0x5168, 0x7B56, 0x7565, 0xFF0C, 0x5219, 0x4E3A] @ ascii '' `true`'' @
       [0xFF1B, 0x5982, 0x679C, 0x5185, 0x5BB9, 0x5B8C, 0x5168, 0x5B89, 0x5168, 0xFF0C] @
       [0x5219, 0x4E3A] @ ascii '' `false`'' @ [0x3002, 0xA] @ ascii ''*   `reason`: '' @
       [0x7528, 0x4E00, 0x53E5, 0x8BDD, 0x7CBE, 0x51C6, 0x6982, 0x62EC, 0x5224, 0x65AD] @
       [0x4F9D, 0x636E, 0x3002, 0x5982, 0x679C, 0x8FDD, 0x89C4, 0xFF0C, 0x8BF7, 0x660E] @
       [0x786E, 0x6307, 0x51FA, 0x8FDD, 0x89C4, 0x7684, 0x7C7B, 0x578B, 0x3002, 0x5982] @
       [0x679C, 0x5B89, 0x5168, 0xFF0C, 0x6B64, 0x5B57, 0x6BB5, 0x56FA, 0x5B9A, 0x4E3A] @
       ascii '' `'' @
       [0x22, 0x5185, 0x5BB9, 0x672A, 0x53D1, 0x73B0, 0x8FDD, 0x89C4, 0x3002, 0x22] @
       ascii ''`'',
     [0xA] @ ascii ''--- '' @
       [0x4EE5, 0x4E0B, 0x662F, 0x9700, 0x8981, 0x5206, 0x6790, 0x7684, 0x5185, 0x5BB9] @
       ascii '' ---'']"

text \<open>
  \<open>analyze_message\<close>. \<open>enable_ai_filter\<close> is \<open>config.ENABLE_AI_FILTER\<close>. The result is
  the returned value and the requests sent to the provider. \<open>JSONDecodeError\<close> has a
  handler of its own; every other exception of the \<open>try\<close> block falls to the second.
\<close>

definition analyze_message ::
  "env \<Rightarrow> model_service \<Rightarrow> bool \<Rightarrow> message \<Rightarrow> bytes option \<Rightarrow> pyval \<times> api_call list" where
  "analyze_message env svc enable_ai_filter message image_bytes =
     (if adapter svc = None \<or> \<not> truthy (filter_model_name svc) \<or> \<not> enable_ai_filter
      then (verdict False (ascii ''AI filter disabled''), [])
      else
        (let content0 = (case msg_text message of
                           None \<Rightarrow> []
                         | Some t \<Rightarrow> if t \<noteq> [] then [TextPart t] else []);
             content1 = (case image_bytes of
                           None \<Rightarrow> content0
                         | Some b \<Rightarrow>
                             if b \<noteq> [] then
                               (case image_open env b of
                                  Some img \<Rightarrow> content0 @ [ImagePart img]
                                | None \<Rightarrow> content0)
                             else content0)
         in if content1 = [] then (verdict False (ascii ''No content to analyze''), [])
            else
              (let contents = content1 @ [TextPart (join [0xA] analyze_prompt_parts)];
                   (response, calls) = generate_content env svc (filter_model_name svc) contents
               in (case response of
                     Inl e \<Rightarrow> (verdict False (ascii ''Analysis failed''), calls)
                   | Inr response_text \<Rightarrow>
                       (case response_text of
                          None \<Rightarrow> (verdict False (ascii ''Analysis failed''), calls)
                        | Some t \<Rightarrow>
                            if t = [] then (verdict False (ascii ''Analysis failed''), calls)
                            else
                              (case json_loads env (strip (sub_fences t)) of
                                 Inr result \<Rightarrow> (result, calls)
                               | Inl e \<Rightarrow>
                                   if e = JSONDecodeError
                                   then (verdict False (ascii ''Analysis failed - JSON parse error''), calls)
                                   else (verdict False (ascii ''Analysis failed''), calls)))))))"

text \<open>
  \<open>_get_local_question\<close>, on values. The bank's entry is read, the list of options is
  built by \<open>+\<close> and shuffled.
\<close>

definition get_local_question :: "rng \<Rightarrow> (exn + verification_question) \<times> rng" where
  "get_local_question g =
     (case choice LOCAL_VERIFICATION_QUESTIONS g of
        (Inl e, g1) \<Rightarrow> (Inl e, g1)
      | (Inr question_data, g1) \<Rightarrow>
          (let correct = bank_correct_answer question_data;
               (opts, g2) = shuffle (bank_incorrect_answers question_data @ [correct]) g1
           in (Inr \<lparr>question = PStr (bank_question question_data),
                    correct_answer = PStr correct,
                    options = map PStr opts\<rparr>, g2)))"

definition unblock_prompt :: pystr where
  "unblock_prompt = concat [
     [0xA],
     ascii ''        # '' @ [0x89D2, 0x8272, 0xA],
     ascii ''        '' @
       [0x4F60, 0x662F, 0x4E00, 0x4E2A, 0x4EBA, 0x673A, 0x9A8C, 0x8BC1, 0xFF08] @
       ascii ''CAPTCHA'' @ [0xFF09, 0x95EE, 0x9898, 0x751F, 0x6210, 0x5668, 0x3002, 0xA],
     ascii ''        # '' @ [0x4EFB, 0x52A1, 0xA],
     ascii ''        '' @
       [0x751F, 0x6210, 0x4E00, 0x4E2A, 0x968F, 0x673A, 0x7684, 0x3001, 0x9002, 0x5408] @
       [0x6210, 0x5E74, 0x4EBA, 0x7684, 0x4E2D, 0x6587, 0x5E38, 0x8BC6, 0x6027, 0x95EE] @
       [0x9898, 0xFF0C, 0x7528, 0x4E8E, 0x533A, 0x5206, 0x4EBA, 0x7C7B, 0x548C, 0x673A] @
       [0x5668, 0x4EBA, 0x3002, 0x95EE, 0x9898, 0x7684, 0x683C, 0x5F0F, 0x5E94, 0x8BE5] @
       [0x662F, 0x591A, 0x6837, 0x7684, 0x3002, 0xA],
     ascii ''        # '' @ [0x8981, 0x6C42, 0xA],
     ascii ''        1.  **'' @ [0x95EE, 0x9898, 0x683C, 0x5F0F, 0x591A, 0x6837, 0x6027] @
       ascii ''**: '' @
       [0x4F60, 0x9700, 0x8981, 0x968F, 0x673A, 0x9009, 0x62E9, 0x4EE5, 0x4E0B, 0x4E24] @
       [0x79CD, 0x95EE, 0x9898, 0x683C, 0x5F0F, 0x4E4B, 0x4E00, 0x8FDB, 0x884C, 0x63D0] @
       [0x95EE, 0xFF1A, 0xA],
     ascii ''            *   **a) '' @ [0x6807, 0x51C6, 0x76F4, 0x63A5, 0x63D0, 0x95EE] @
       ascii ''**: '' @
       [0x4F8B, 0x5982, 0xFF0C, 0x22, 0x4E2D, 0x56FD, 0x7684, 0x9996, 0x90FD, 0x662F] @
       [0x54EA, 0x91CC, 0xFF1F, 0x22, 0xA],
     ascii ''            *   **b) '' @ [0x53CD, 0x5411, 0x6392, 0x9664, 0x63D0, 0x95EE] @
       ascii ''**: '' @
       [0x4F7F, 0x7528, 0x22, 0x4EE5, 0x4E0B, 0x54EA, 0x4E2A, 0x4E0D, 0x5C5E, 0x4E8E] @
       ascii ''...'' @
       [0xFF1F, 0x22, 0x6216, 0x7C7B, 0x4F3C, 0x7684, 0x53E5, 0x5F0F, 0x3002, 0x4F8B] @
       [0x5982, 0xFF0C, 0x22, 0x4EE5, 0x4E0B, 0x54EA, 0x4E2A, 0x4E0D, 0x5C5E, 0x4E8E] @
       [0x884C, 0x661F, 0xFF1F, 0x22, 0xA],
     ascii ''        2.  **'' @ [0x4E3B, 0x9898] @ ascii ''**: '' @
       [0x95EE, 0x9898, 0x4E3B, 0x9898, 0x5E94, 0x4E3A, 0x5B8C, 0x5168, 0x968F, 0x673A] @
       [0x7684, 0x65E5, 0x5E38, 0x901A, 0x7528, 0x5E38, 0x8BC6, 0xFF0C, 0x65E0, 0x9700] @
       [0x9650, 0x5B9A, 0x5728, 0x7279, 0x5B9A, 0x9886, 0x57DF, 0x3002, 0xA],
     ascii ''        3.  **'' @ [0x96BE, 0x5EA6] @ ascii ''**: '' @
       [0x95EE, 0x9898, 0x548C, 0x9009, 0x9879, 0x7684, 0x96BE, 0x5EA6, 0x5E94, 0x8BBE] @
       [0x5B9A, 0x4E3A, 0x22, 0x7EDD, 0x5927, 0x591A, 0x6570] @ ascii ''18'' @
       [0x5C81, 0x4EE5, 0x4E0A, 0x6BCD, 0x8BED, 0x4E3A, 0x4E2D, 0x6587, 0x7684, 0x6210] @
       [0x5E74, 0x4EBA, 0x90FD, 0x80FD, 0x7ACB, 0x5373, 0x56DE, 0x7B54, 0x6B63, 0x786E] @
       [0x22, 0x7684, 0x6C34, 0x5E73, 0xFF0C, 0x907F, 0x514D, 0x4E13, 0x4E1A, 0x6216] @
       [0x51B7, 0x95E8, 0x77E5, 0x8BC6, 0x3002, 0xA],
     ascii ''        4.  **'' @ [0x660E, 0x786E, 0x6027] @ ascii ''**: '' @
       [0x95EE, 0x9898, 0x5FC5, 0x987B, 0x53EA, 0x6709, 0x4E00, 0x4E2A, 0x660E, 0x786E] @
       [0x65E0, 0x8BEF, 0x7684, 0x6B63, 0x786E, 0x7B54, 0x6848, 0x3002, 0xA],
     ascii ''        5.  **'' @ [0x7B54, 0x6848, 0x903B, 0x8F91] @ ascii ''**:'' @ [0xA],
     ascii ''            *   '' @ [0x63D0, 0x4F9B, 0x4E00, 0x4E2A] @
       ascii ''`correct_answer`'' @
       [0xFF08, 0x6B63, 0x786E, 0x7B54, 0x6848, 0xFF09, 0x3002, 0xA],
     ascii ''            *   '' @
       [0x63D0, 0x4F9B, 0x4E00, 0x4E2A, 0x5305, 0x542B, 0x4E09, 0x4E2A, 0x5B57, 0x7B26] @
       [0x4E32, 0x7684, 0x5217, 0x8868] @ ascii ''`incorrect_answers`'' @
       [0xFF08, 0x5E72, 0x6270, 0x9879, 0xFF09, 0x3002, 0xA],
     ascii ''            *   **'' @ [0x5BF9, 0x4E8E, 0x6807, 0x51C6, 0x95EE, 0x9898] @
       ascii ''**'' @
       [0xFF0C, 0x6240, 0x6709, 0x9009, 0x9879, 0x5E94, 0x5C5E, 0x4E8E, 0x540C, 0x4E00] @
       [0x7C7B, 0x522B, 0x3002, 0xA],
     ascii ''            *   **'' @
       [0x5BF9, 0x4E8E, 0x53CD, 0x5411, 0x6392, 0x9664, 0x95EE, 0x9898] @ ascii ''**'' @
       [0xFF0C, 0x4E09, 0x4E2A] @ ascii ''`incorrect_answers`'' @
       [0x5E94, 0x5C5E, 0x4E8E, 0x540C, 0x4E00, 0x7C7B, 0x522B, 0xFF0C, 0x800C] @
       ascii ''`correct_answer`'' @
       [0x5219, 0x662F, 0x90A3, 0x4E2A, 0x4E0D, 0x5C5E, 0x4E8E, 0x8BE5, 0x7C7B, 0x522B] @
       [0x7684] @ ascii '' outlier'' @ [0xFF08, 0x5C40, 0x5916, 0x8005, 0xFF09, 0x3002, 0xA],
     ascii ''        6.  **'' @ [0x8BED, 0x8A00] @ ascii ''**: '' @
       [0x6240, 0x6709, 0x5185, 0x5BB9, 0x5FC5, 0x987B, 0x4E3A, 0x7B80, 0x4F53, 0x4E2D] @
       [0x6587, 0x3002, 0xA],
     ascii ''        7.  **'' @ [0x8F93, 0x51FA, 0x683C, 0x5F0F] @ ascii ''**: '' @
       [0x4E25, 0x683C, 0x6309, 0x7167, 0x4EE5, 0x4E0B] @ ascii ''JSON'' @
       [0x683C, 0x5F0F, 0x8FD4, 0x56DE, 0xFF0C, 0x4E0D, 0x8981, 0x5305, 0x542B, 0x4EFB] @
       [0x4F55, 0x989D, 0x5916, 0x7684, 0x89E3, 0x91CA, 0x6216, 0x6587, 0x5B57, 0x3002] @ [0xA],
     ascii ''        # JSON'' @ [0x683C, 0x5F0F, 0x793A, 0x4F8B, 0xA],
     ascii ''        {'' @ [0xA],
     ascii ''          '' @ [0x22] @ ascii ''question'' @ [0x22] @ ascii '': '' @
       [0x22, 0x95EE, 0x9898, 0x6587, 0x672C, 0x22] @ ascii '','' @ [0xA],
     ascii ''          '' @ [0x22] @ ascii ''correct_answer'' @ [0x22] @ ascii '': '' @
       [0x22, 0x6B63, 0x786E, 0x7B54, 0x6848, 0x22] @ ascii '','' @ [0xA],
     ascii ''          '' @ [0x22] @ ascii ''incorrect_answers'' @ [0x22] @ ascii '': ['' @
       [0x22, 0x5E72, 0x6270, 0x9879] @ ascii ''1'' @ [0x22] @ ascii '', '' @
       [0x22, 0x5E72, 0x6270, 0x9879] @ ascii ''2'' @ [0x22] @ ascii '', '' @
       [0x22, 0x5E72, 0x6270, 0x9879] @ ascii ''3'' @ [0x22] @ ascii '']'' @ [0xA],
     ascii ''        }'' @ [0xA],
     ascii ''        '']"

text \<open>
  \<open>generate_unblock_question\<close>. The inner pair is the outcome of the \<open>try\<close> block with
  the generator as the block leaves it: the shuffle has consumed its draws when the
  lookup of \<open>question\<close> fails after it. Every exception of the block is caught and the
  local bank answers instead. The result is the outcome, the generator and the requests
  sent.
\<close>

definition generate_unblock_question ::
  "env \<Rightarrow> model_service \<Rightarrow> rng \<Rightarrow> (exn + verification_question) \<times> rng \<times> api_call list" where
  "generate_unblock_question env svc g =
     (if adapter svc = None \<or> \<not> truthy (verification_model_name svc)
      then (let (r, g') = get_local_question g in (r, g', []))
      else
        (let (response, calls) =
               generate_content env svc (verification_model_name svc) [TextPart unblock_prompt];
             (attempt, g1) =
               (case response of
                  Inl e \<Rightarrow> (Inl e, g)
                | Inr response_text \<Rightarrow>
                    if \<not> truthy response_text then (Inl ValueError, g)
                    else
                      (case json_loads env (strip (sub_fences (the response_text))) of
                         Inl e \<Rightarrow> (Inl e, g)
                       | Inr data \<Rightarrow>
                           (case subscript data (ascii ''correct_answer'') of
                              Inl e \<Rightarrow> (Inl e, g)
                            | Inr correct \<Rightarrow>
                                (case subscript data (ascii ''incorrect_answers'') of
                                   Inl e \<Rightarrow> (Inl e, g)
                                 | Inr incorrect \<Rightarrow>
                                     (case add_list incorrect [correct] of
                                        Inl e \<Rightarrow> (Inl e, g)
                                      | Inr options0 \<Rightarrow>
                                          (let (opts, g') = shuffle options0 g
                                           in (case subscript data (ascii ''question'') of
                                                 Inl e \<Rightarrow> (Inl e, g')
                                               | Inr q \<Rightarrow>
                                                   (Inr \<lparr>question = q,
                                                         correct_answer = correct,
                                                         options = opts\<rparr>, g'))))))))
         in (case attempt of
               Inr result \<Rightarrow> (Inr result, g1, calls)
             | Inl e \<Rightarrow> (let (r, g2) = get_local_question g1 in (r, g2, calls)))))"

definition verification_prompt :: pystr where
  "verification_prompt = concat [
     [0xA],
     ascii ''        # '' @ [0x89D2, 0x8272, 0xA],
     ascii ''        '' @
       [0x4F60, 0x662F, 0x4E00, 0x4E2A, 0x4EBA, 0x673A, 0x9A8C, 0x8BC1, 0xFF08] @
       ascii ''CAPTCHA'' @ [0xFF09, 0x95EE, 0x9898, 0x751F, 0x6210, 0x5668, 0x3002, 0xA],
     ascii ''        # '' @ [0x4EFB, 0x52A1, 0xA],
     ascii ''        '' @
       [0x751F, 0x6210, 0x4E00, 0x4E2A, 0x968F, 0x673A, 0x7684, 0x3001, 0x9002, 0x5408] @
       [0x6210, 0x5E74, 0x4EBA, 0x7684, 0x4E2D, 0x6587, 0x5E38, 0x8BC6, 0x6027, 0x95EE] @
       [0x9898, 0xFF0C, 0x7528, 0x4E8E, 0x533A, 0x5206, 0x4EBA, 0x7C7B, 0x548C, 0x673A] @
       [0x5668, 0x4EBA, 0x3002, 0x95EE, 0x9898, 0x7684, 0x683C, 0x5F0F, 0x5E94, 0x8BE5] @
       [0x662F, 0x591A, 0x6837, 0x7684, 0x3002, 0xA],
     ascii ''        # '' @ [0x8981, 0x6C42, 0xA],
     ascii ''        1.  **'' @ [0x95EE, 0x9898, 0x683C, 0x5F0F, 0x591A, 0x6837, 0x6027] @
       ascii ''**: '' @
       [0x4F60, 0x9700, 0x8981, 0x968F, 0x673A, 0x9009, 0x62E9, 0x4EE5, 0x4E0B, 0x4E24] @
       [0x79CD, 0x95EE, 0x9898, 0x683C, 0x5F0F, 0x4E4B, 0x4E00, 0x8FDB, 0x884C, 0x63D0] @
       [0x95EE, 0xFF1A, 0xA],
     ascii ''            *   **a) '' @ [0x6807, 0x51C6, 0x76F4, 0x63A5, 0x63D0, 0x95EE] @
       ascii ''**: '' @
       [0x4F8B, 0x5982, 0xFF0C, 0x22, 0x4E2D, 0x56FD, 0x7684, 0x9996, 0x90FD, 0x662F] @
       [0x54EA, 0x91CC, 0xFF1F, 0x22, 0xA],
     ascii ''            *   **b) '' @ [0x53CD, 0x5411, 0x6392, 0x9664, 0x63D0, 0x95EE] @
       ascii ''**: '' @
       [0x4F7F, 0x7528, 0x22, 0x4EE5, 0x4E0B, 0x54EA, 0x4E2A, 0x4E0D, 0x5C5E, 0x4E8E] @
       ascii ''...'' @
       [0xFF1F, 0x22, 0x6216, 0x7C7B, 0x4F3C, 0x7684, 0x53E5, 0x5F0F, 0x3002, 0x4F8B] @
       [0x5982, 0xFF0C, 0x22, 0x4EE5, 0x4E0B, 0x54EA, 0x4E2A, 0x4E0D, 0x5C5E, 0x4E8E] @
       [0x884C, 0x661F, 0xFF1F, 0x22, 0xA],
     ascii ''        2.  **'' @ [0x4E3B, 0x9898] @ ascii ''**: '' @
       [0x95EE, 0x9898, 0x4E3B, 0x9898, 0x5E94, 0x4E3A, 0x5B8C, 0x5168, 0x968F, 0x673A] @
       [0x7684, 0x65E5, 0x5E38, 0x901A, 0x7528, 0x5E38, 0x8BC6, 0xFF0C, 0x65E0, 0x9700] @
       [0x9650, 0x5B9A, 0x5728, 0x7279, 0x5B9A, 0x9886, 0x57DF, 0x3002, 0xA],
     ascii ''        3.  **'' @ [0x96BE, 0x5EA6] @ ascii ''**: '' @
       [0x95EE, 0x9898, 0x548C, 0x9009, 0x9879, 0x7684, 0x96BE, 0x5EA6, 0x5E94, 0x8BBE] @
       [0x5B9A, 0x4E3A, 0x22, 0x7EDD, 0x5927, 0x591A, 0x6570] @ ascii ''18'' @
       [0x5C81, 0x4EE5, 0x4E0A, 0x6BCD, 0x8BED, 0x4E3A, 0x4E2D, 0x6587, 0x7684, 0x6210] @
       [0x5E74, 0x4EBA, 0x90FD, 0x80FD, 0x7ACB, 0x5373, 0x56DE, 0x7B54, 0x6B63, 0x786E] @
       [0x22, 0x7684, 0x6C34, 0x5E73, 0xFF0C, 0x907F, 0x514D, 0x4E13, 0x4E1A, 0x6216] @
       [0x51B7, 0x95E8, 0x77E5, 0x8BC6, 0x3002, 0xA],
     ascii ''        4.  **'' @ [0x660E, 0x786E, 0x6027] @ ascii ''**: '' @
       [0x95EE, 0x9898, 0x5FC5, 0x987B, 0x53EA, 0x6709, 0x4E00, 0x4E2A, 0x660E, 0x786E] @
       [0x65E0, 0x8BEF, 0x7684, 0x6B63, 0x786E, 0x7B54, 0x6848, 0x3002, 0xA],
     ascii ''        5.  **'' @ [0x7B54, 0x6848, 0x903B, 0x8F91] @ ascii ''**:'' @ [0xA],
     ascii ''            *   '' @ [0x63D0, 0x4F9B, 0x4E00, 0x4E2A] @
       ascii ''`correct_answer`'' @
       [0xFF08, 0x6B63, 0x786E, 0x7B54, 0x6848, 0xFF09, 0x3002, 0xA],
     ascii ''            *   '' @
       [0x63D0, 0x4F9B, 0x4E00, 0x4E2A, 0x5305, 0x542B, 0x4E09, 0x4E2A, 0x5B57, 0x7B26] @
       [0x4E32, 0x7684, 0x5217, 0x8868] @ ascii ''`incorrect_answers`'' @
       [0xFF08, 0x5E72, 0x6270, 0x9879, 0xFF09, 0x3002, 0xA],
     ascii ''            *   **'' @ [0x5BF9, 0x4E8E, 0x6807, 0x51C6, 0x95EE, 0x9898] @
       ascii ''**'' @
       [0xFF0C, 0x6240, 0x6709, 0x9009, 0x9879, 0x5E94, 0x5C5E, 0x4E8E, 0x540C, 0x4E00] @
       [0x7C7B, 0x522B, 0x3002, 0xA],
     ascii ''            *   **'' @
       [0x5BF9, 0x4E8E, 0x53CD, 0x5411, 0x6392, 0x9664, 0x95EE, 0x9898] @ ascii ''**'' @
       [0xFF0C, 0x4E09, 0x4E2A] @ ascii ''`incorrect_answers`'' @
       [0x5E94, 0x5C5E, 0x4E8E, 0x540C, 0x4E00, 0x7C7B, 0x522B, 0xFF0C, 0x800C] @
       ascii ''`correct_answer`'' @
       [0x5219, 0x662F, 0x90A3, 0x4E2A, 0x4E0D, 0x5C5E, 0x4E8E, 0x8BE5, 0x7C7B, 0x522B] @
       [0x7684] @ ascii '' outlier'' @ [0xFF08, 0x5C40, 0x5916, 0x8005, 0xFF09, 0x3002, 0xA],
     ascii ''        6.  **'' @ [0x8BED, 0x8A00] @ ascii ''**: '' @
       [0x6240, 0x6709, 0x5185, 0x5BB9, 0x5FC5, 0x987B, 0x4E3A, 0x7B80, 0x4F53, 0x4E2D] @
       [0x6587, 0x3002, 0xA],
     ascii ''        7.  **'' @ [0x8F93, 0x51FA, 0x683C, 0x5F0F] @ ascii ''**: '' @
       [0x4E25, 0x683C, 0x6309, 0x7167, 0x4EE5, 0x4E0B] @ ascii ''JSON'' @
       [0x683C, 0x5F0F, 0x8FD4, 0x56DE, 0xFF0C, 0x4E0D, 0x8981, 0x5305, 0x542B, 0x4EFB] @
       [0x4F55, 0x989D, 0x5916, 0x7684, 0x89E3, 0x91CA, 0x6216, 0x6587, 0x5B57, 0x3002] @ [0xA],
     ascii ''        # JSON'' @ [0x683C, 0x5F0F, 0x793A, 0x4F8B, 0xA],
     ascii ''        {'' @ [0xA],
     ascii ''          '' @ [0x22] @ ascii ''question'' @ [0x22] @ ascii '': '' @
       [0x22, 0x95EE, 0x9898, 0x6587, 0x672C, 0x22] @ ascii '','' @ [0xA],
     ascii ''          '' @ [0x22] @ ascii ''correct_answer'' @ [0x22] @ ascii '': '' @
       [0x22, 0x6B63, 0x786E, 0x7B54, 0x6848, 0x22] @ ascii '','' @ [0xA],
     ascii ''          '' @ [0x22] @ ascii ''incorrect_answers'' @ [0x22] @ ascii '': ['' @
       [0x22, 0x5E72, 0x6270, 0x9879] @ ascii ''1'' @ [0x22] @ ascii '', '' @
       [0x22, 0x5E72, 0x6270, 0x9879] @ ascii ''2'' @ [0x22] @ ascii '', '' @
       [0x22, 0x5E72, 0x6270, 0x9879] @ ascii ''3'' @ [0x22] @ ascii '']'' @ [0xA],
     ascii ''        }'' @ [0xA],
     ascii ''        '']"

text \<open>\<open>generate_verification_challenge\<close>, translated from its own body.\<close>

definition generate_verification_challenge ::
  "env \<Rightarrow> model_service \<Rightarrow> rng \<Rightarrow> (exn + verification_question) \<times> rng \<times> api_call list" where
  "generate_verification_challenge env svc g =
     (if adapter svc = None \<or> \<not> truthy (verification_model_name svc)
      then (let (r, g') = get_local_question g in (r, g', []))
      else
        (let (response, calls) =
               generate_content env svc (verification_model_name svc)
                 [TextPart verification_prompt];
             (attempt, g1) =
               (case response of
                  Inl e \<Rightarrow> (Inl e, g)
                | Inr response_text \<Rightarrow>
                    if \<not> truthy response_text then (Inl ValueError, g)
                    else
                      (case json_loads env (strip (sub_fences (the response_text))) of
                         Inl e \<Rightarrow> (Inl e, g)
                       | Inr data \<Rightarrow>
                           (case subscript data (ascii ''correct_answer'') of
                              Inl e \<Rightarrow> (Inl e, g)
                            | Inr correct \<Rightarrow>
                                (case subscript data (ascii ''incorrect_answers'') of
                                   Inl e \<Rightarrow> (Inl e, g)
                                 | Inr incorrect \<Rightarrow>
                                     (case add_list incorrect [correct] of
                                        Inl e \<Rightarrow> (Inl e, g)
                                      | Inr options0 \<Rightarrow>
                                          (let (opts, g') = shuffle options0 g
                                           in (case subscript data (ascii ''question'') of
                                                 Inl e \<Rightarrow> (Inl e, g')
                                               | Inr q \<Rightarrow>
                                                   (Inr \<lparr>question = q,
                                                         correct_answer = correct,
                                                         options = opts\<rparr>, g'))))))))
         in (case attempt of
               Inr result \<Rightarrow> (Inr result, g1, calls)
             | Inl e \<Rightarrow> (let (r, g2) = get_local_question g1 in (r, g2, calls)))))"

definition autoreply_prompt_parts :: "pystr \<Rightarrow> pystr \<Rightarrow> pystr list" where
  "autoreply_prompt_parts user_message knowledge_base_content = [
     [0x4F60, 0x662F, 0x4E00, 0x4E2A, 0x5BA2, 0x670D, 0x52A9, 0x624B, 0xFF0C, 0x5FC5] @
       [0x987B, 0x4E25, 0x683C, 0x6839, 0x636E, 0x63D0, 0x4F9B, 0x7684, 0x77E5, 0x8BC6] @
       [0x5E93, 0x5185, 0x5BB9, 0x6765, 0x56DE, 0x7B54, 0x7528, 0x6237, 0x7684, 0x95EE] @
       [0x9898, 0x3002],
     ascii ''**'' @ [0x91CD, 0x8981, 0x89C4, 0x5219, 0xFF1A] @ ascii ''**'',
     ascii ''1. '' @
       [0x4F60, 0x53EA, 0x80FD, 0x6839, 0x636E, 0x77E5, 0x8BC6, 0x5E93, 0x4E2D, 0x7684] @
       [0x5185, 0x5BB9, 0x6765, 0x56DE, 0x7B54, 0x7528, 0x6237, 0x7684, 0x95EE, 0x9898] @
       [0x3002],
     ascii ''2. '' @
       [0x5982, 0x679C, 0x77E5, 0x8BC6, 0x5E93, 0x4E2D, 0x6CA1, 0x6709, 0x76F8, 0x5173] @
       [0x5185, 0x5BB9, 0xFF0C, 0x4F60, 0x5FC5, 0x987B, 0x660E, 0x786E, 0x544A, 0x8BC9] @
       [0x7528, 0x6237, 0xFF1A, 0x27, 0x62B1, 0x6B49, 0xFF0C, 0x6211, 0x65E0, 0x6CD5] @
       [0x6839, 0x636E, 0x73B0, 0x6709, 0x77E5, 0x8BC6, 0x5E93, 0x56DE, 0x7B54, 0x60A8] @
       [0x7684, 0x95EE, 0x9898, 0xFF0C, 0x8BF7, 0x7A0D, 0x540E, 0x7BA1, 0x7406, 0x5458] @
       [0x4F1A, 0x4E3A, 0x60A8, 0x56DE, 0x590D, 0x3002, 0x27],
     ascii ''3. '' @
       [0x4E25, 0x7981, 0x7F16, 0x9020, 0x3001, 0x731C, 0x6D4B, 0x6216, 0x63D0, 0x4F9B] @
       [0x77E5, 0x8BC6, 0x5E93, 0x4E2D, 0x6CA1, 0x6709, 0x7684, 0x4FE1, 0x606F, 0x3002],
     ascii ''4. '' @
       [0x5982, 0x679C, 0x7528, 0x6237, 0x7684, 0x95EE, 0x9898, 0x4E0E, 0x77E5, 0x8BC6] @
       [0x5E93, 0x5185, 0x5BB9, 0x76F8, 0x5173, 0xFF0C, 0x8BF7, 0x6574, 0x7406, 0x6C47] @
       [0x603B, 0x76F8, 0x5173, 0x77E5, 0x8BC6, 0x5E93, 0x6761, 0x76EE, 0xFF0C, 0x7528] @
       [0x6E05, 0x6670, 0x3001, 0x53CB, 0x597D, 0x7684, 0x8BED, 0x8A00, 0x56DE, 0x7B54] @
       [0x3002],
     ascii ''5. '' @
       [0x56DE, 0x7B54, 0x8981, 0x7B80, 0x6D01, 0x660E, 0x4E86, 0xFF0C, 0x76F4, 0x63A5] @
       [0x56DE, 0x7B54, 0x7528, 0x6237, 0x7684, 0x95EE, 0x9898, 0x3002],
     ascii ''6. **'' @ [0x91CD, 0x8981, 0xFF1A, 0x8BF7, 0x4F7F, 0x7528] @ ascii ''Markdown'' @
       [0x683C, 0x5F0F, 0x56DE, 0x590D] @ ascii ''**'' @
       [0xFF0C, 0x53EF, 0x4EE5, 0x4F7F, 0x7528, 0x4EE5, 0x4E0B] @ ascii ''Markdown'' @
       [0x8BED, 0x6CD5, 0xFF1A],
     ascii ''   - '' @ [0x4F7F, 0x7528] @ ascii '' **'' @ [0x7C97, 0x4F53] @ ascii ''** '' @
       [0x5F3A, 0x8C03, 0x91CD, 0x8981, 0x5185, 0x5BB9],
     ascii ''   - '' @ [0x4F7F, 0x7528] @ ascii '' *'' @ [0x659C, 0x4F53] @ ascii ''* '' @
       [0x8868, 0x793A, 0x6B21, 0x8981, 0x4FE1, 0x606F],
     ascii ''   - '' @ [0x4F7F, 0x7528] @ ascii '' `'' @ [0x4EE3, 0x7801] @ ascii ''` '' @
       [0x683C, 0x5F0F, 0x8868, 0x793A, 0x6280, 0x672F, 0x672F, 0x8BED, 0x6216, 0x547D] @
       [0x4EE4],
     ascii ''   - '' @ [0x4F7F, 0x7528, 0x5217, 0x8868, 0x683C, 0x5F0F, 0xFF08] @
       ascii ''- '' @ [0x6216] @ ascii '' 1.'' @ [0xFF09, 0x7EC4, 0x7EC7, 0x5185, 0x5BB9],
     ascii ''   - '' @ [0x4F7F, 0x7528] @ ascii '' > '' @
       [0x5F15, 0x7528, 0x5757, 0x8868, 0x793A, 0x91CD, 0x8981, 0x63D0, 0x793A],
     [0xA] @ ascii ''--- '' @ [0x77E5, 0x8BC6, 0x5E93, 0x5185, 0x5BB9] @ ascii '' ---'',
     knowledge_base_content,
     [0xA] @ ascii ''--- '' @ [0x7528, 0x6237, 0x95EE, 0x9898] @ ascii '' ---'',
     user_message,
     [0xA] @ ascii ''--- '' @
       [0x8BF7, 0x6839, 0x636E, 0x77E5, 0x8BC6, 0x5E93, 0x5185, 0x5BB9, 0x56DE, 0x7B54] @
       [0x7528, 0x6237, 0x95EE, 0x9898, 0xFF08, 0x4F7F, 0x7528] @ ascii ''Markdown'' @
       [0x683C, 0x5F0F, 0xFF09] @ ascii ''---'',
     [0x5982, 0x679C, 0x77E5, 0x8BC6, 0x5E93, 0x4E2D, 0x6CA1, 0x6709, 0x76F8, 0x5173] @
       [0x5185, 0x5BB9, 0xFF0C, 0x8BF7, 0x56DE, 0x590D, 0xFF1A, 0x27, 0x62B1, 0x6B49] @
       [0xFF0C, 0x6211, 0x65E0, 0x6CD5, 0x6839, 0x636E, 0x73B0, 0x6709, 0x77E5, 0x8BC6] @
       [0x5E93, 0x56DE, 0x7B54, 0x60A8, 0x7684, 0x95EE, 0x9898, 0xFF0C, 0x8BF7, 0x7A0D] @
       [0x540E, 0x7BA1, 0x7406, 0x5458, 0x4F1A, 0x4E3A, 0x60A8, 0x56DE, 0x590D, 0x3002] @
       [0x27]]"

definition marker_cannot_answer :: pystr where
  "marker_cannot_answer = [0x65E0, 0x6CD5, 0x6839, 0x636E, 0x73B0, 0x6709, 0x77E5, 0x8BC6, 0x5E93]"

definition marker_sorry :: pystr where
  "marker_sorry = [0x62B1, 0x6B49]"

text \<open>
  \<open>generate_autoreply\<close>: \<open>None\<close> is the absent result. The prompt is joined inside the
  \<open>try\<close> block, before the request.
\<close>

definition generate_autoreply ::
  "env \<Rightarrow> model_service \<Rightarrow> pystr \<Rightarrow> pystr option \<Rightarrow> pystr option \<times> api_call list" where
  "generate_autoreply env svc user_message knowledge_base_content =
     (if adapter svc = None \<or> \<not> truthy (filter_model_name svc) then (None, [])
      else
        (case knowledge_base_content of
           None \<Rightarrow> (None, [])
         | Some kb \<Rightarrow>
             if kb = [] \<or> strip kb = [] then (None, [])
             else
               (let (response, calls) =
                      generate_content env svc (filter_model_name svc)
                        [TextPart (join [0xA] (autoreply_prompt_parts user_message kb))]
                in (case response of
                      Inl e \<Rightarrow> (None, calls)
                    | Inr response_text \<Rightarrow>
                        (case response_text of
                           None \<Rightarrow> (None, calls)
                         | Some t \<Rightarrow>
                             if t = [] then (None, calls)
                             else if contains t marker_cannot_answer \<or> contains t marker_sorry
                             then (None, calls)
                             else (Some (strip t), calls))))))"

section \<open>\<open>utils/message_sender.py\<close>\<close>

text \<open>
  \<open>send_message_by_type\<close>. The function awaits at most one call on the bot and returns
  what that call returns: \<open>Some c\<close> stands for the answer of the platform to the call
  \<open>c\<close> (or the exception it raises, which is not caught), \<open>None\<close> for the final
  \<open>return None\<close>, reached without any call.
\<close>

definition send_message_by_type :: "message \<Rightarrow> int \<Rightarrow> int option \<Rightarrow> bool \<Rightarrow> bot_call option" where
  "send_message_by_type message chat_id thread_id disable_web_page_preview =
     (if truthy (msg_text message) then
        Some (SendMessage chat_id (the (msg_text message)) (entities message) thread_id
                (Some disable_web_page_preview))
      else if photo message \<noteq> [] then
        Some (SendPhoto chat_id (file_id (last (photo message))) (caption message)
                (caption_entities message) thread_id)
      else if animation message \<noteq> None then
        Some (SendAnimation chat_id (file_id (the (animation message))) (caption message)
                (caption_entities message) thread_id)
      else if video message \<noteq> None then
        Some (SendVideo chat_id (file_id (the (video message))) (caption message)
                (caption_entities message) thread_id)
      else if document message \<noteq> None then
        Some (SendDocument chat_id (file_id (the (document message))) (caption message)
                (caption_entities message) thread_id)
      else if audio message \<noteq> None then
        Some (SendAudio chat_id (file_id (the (audio message))) (caption message)
                (caption_entities message) thread_id)
      else if voice message \<noteq> None then
        Some (SendVoice chat_id (file_id (the (voice message))) (caption message)
                (caption_entities message) thread_id)
      else if video_note message \<noteq> None then
        Some (SendVideoNote chat_id (file_id (the (video_note message))) thread_id)
      else if sticker message \<noteq> None then
        Some (SendSticker chat_id (file_id (the (sticker message))) thread_id)
      else None)"

section \<open>\<open>handlers/admin_handler.py\<close>\<close>

text \<open>
  The persistence layer (\<open>database.models\<close>) is outside the sources at hand; its four
  reads are parameters. A user row carries \<open>user_id\<close>; a row of the filtered-message
  log carries five optional strings.
\<close>

record user_row =
  user_id :: int

record filtered_row =
  first_name :: "pystr option"
  username :: "pystr option"
  reason :: "pystr option"
  content :: "pystr option"
  filtered_at :: "pystr option"

record db =
  is_admin :: "int \<Rightarrow> bool"
  get_user_by_thread_id :: "int option \<Rightarrow> user_row option"
  get_filtered_messages_count :: int
  get_filtered_messages :: "int \<Rightarrow> int \<Rightarrow> filtered_row list"

record update =
  upd_message :: "message option"
  effective_user_id :: int

text \<open>
  \<open>_send_reply_to_user\<close>: the calls made on the bot, none or one. No call passes
  \<open>message_thread_id\<close>; the text branch passes \<open>disable_web_page_preview=True\<close>.
\<close>

definition send_reply_to_user :: "message \<Rightarrow> int \<Rightarrow> bot_call list" where
  "send_reply_to_user message uid =
     (if truthy (msg_text message) then
        [SendMessage uid (the (msg_text message)) (entities message) None (Some True)]
      else if photo message \<noteq> [] then
        [SendPhoto uid (file_id (last (photo message))) (caption message)
           (caption_entities message) None]
      else if animation message \<noteq> None then
        [SendAnimation uid (file_id (the (animation message))) (caption message)
           (caption_entities message) None]
      else if video message \<noteq> None then
        [SendVideo uid (file_id (the (video message))) (caption message)
           (caption_entities message) None]
      else if document message \<noteq> None then
        [SendDocument uid (file_id (the (document message))) (caption message)
           (caption_entities message) None]
      else if audio message \<noteq> None then
        [SendAudio uid (file_id (the (audio message))) (caption message)
           (caption_entities message) None]
      else if voice message \<noteq> None then
        [SendVoice uid (file_id (the (voice message))) (caption message)
           (caption_entities message) None]
      else if video_note message \<noteq> None then
        [SendVideoNote uid (file_id (the (video_note message))) None]
      else if sticker message \<noteq> None then
        [SendSticker uid (file_id (the (sticker message))) None]
      else [])"

definition handle_admin_reply :: "db \<Rightarrow> update \<Rightarrow> bot_call list" where
  "handle_admin_reply database upd =
     (case upd_message upd of
        None \<Rightarrow> []
      | Some message \<Rightarrow>
          if \<not> is_topic_message message then []
          else
            (let thread_id = message_thread_id message
             in (case get_user_by_thread_id database thread_id of
                   None \<Rightarrow> []
                 | Some user \<Rightarrow> send_reply_to_user message (user_id user))))"

text \<open>\<open>msg.get(key) or 'N/A'\<close>.\<close>

definition or_na :: "pystr option \<Rightarrow> pystr" where
  "or_na v = (if truthy v then the v else ascii ''N/A'')"

definition format_entry :: "nat \<Rightarrow> filtered_row \<Rightarrow> pystr" where
  "format_entry idx msg =
     (let first_name' = or_na (first_name msg);
          username' = or_na (username msg);
          reason' = or_na (reason msg);
          content0 = or_na (content msg);
          filtered_at' = or_na (filtered_at msg);
          content' = (if content0 \<noteq> [] \<and> length content0 > 100
                      then take 100 content0 @ ascii ''...'' else content0)
      in [0x3010] @ str_int (int idx) @ [0x3011, 0xA] @
         [0x7528, 0x6237] @ ascii '': '' @ first_name' @ ascii '' ('' @ [0x40] @ username' @ ascii '')'' @ [0xA] @
         [0x539F, 0x56E0] @ ascii '': '' @ reason' @ [0xA] @
         [0x5185, 0x5BB9] @ ascii '': '' @ content' @ [0xA] @
         [0x65F6, 0x95F4] @ ascii '': '' @ filtered_at' @ [0xA, 0xA])"

text \<open>\<open>_format_filtered_messages\<close>: the header, then one entry per row, numbered from 1.\<close>

definition format_filtered_messages :: "filtered_row list \<Rightarrow> int \<Rightarrow> int \<Rightarrow> pystr" where
  "format_filtered_messages messages page total_pages =
     foldl (\<lambda>response (idx, msg). response @ format_entry idx msg)
       ([0x88AB, 0x8FC7, 0x6EE4, 0x7684, 0x6D88, 0x606F] @ ascii '' ('' @ [0x7B2C] @ ascii '' '' @ str_int page @ ascii ''/'' @ str_int total_pages @
        ascii '' '' @ [0x9875] @ ascii ''):'' @ [0xA, 0xA])
       (enumerate 1 messages)"

datatype button = InlineKeyboardButton (label: pystr) (callback_data: pystr)

type_synonym keyboard = "button list list"

text \<open>
  \<open>_get_filtered_messages_keyboard\<close>: \<open>None\<close>, or \<open>InlineKeyboardMarkup\<close> of the rows.
\<close>

definition get_filtered_messages_keyboard :: "int \<Rightarrow> int \<Rightarrow> keyboard option" where
  "get_filtered_messages_keyboard page total_pages =
     (if total_pages \<le> 1 then None
      else
        (let buttons0 = (if page > 1
                         then [InlineKeyboardButton ([0x4E0A, 0x4E00, 0x9875])
                                 (ascii ''filtered_page_'' @ str_int (page - 1))]
                         else []);
             buttons = (if page < total_pages
                        then buttons0 @ [InlineKeyboardButton ([0x4E0B, 0x4E00, 0x9875])
                                           (ascii ''filtered_page_'' @ str_int (page + 1))]
                        else buttons0);
             rows = (if buttons \<noteq> [] then [buttons] else [])
         in if rows \<noteq> [] then Some rows else None))"

text \<open>A reply to the admin: the text, and the keyboard when \<open>reply_markup\<close> is passed.\<close>

datatype reply = ReplyText pystr "keyboard option"

definition no_permission_text :: pystr where
  "no_permission_text = [0x60A8, 0x6CA1, 0x6709, 0x6743, 0x9650, 0x6267, 0x884C, 0x6B64, 0x64CD, 0x4F5C] @
        [0x3002]"

definition nothing_found_text :: pystr where
  "nothing_found_text = [0x6CA1, 0x6709, 0x627E, 0x5230, 0x88AB, 0x8FC7, 0x6EE4, 0x7684, 0x6D88, 0x606F] @
        [0x3002]"

definition view_filtered :: "db \<Rightarrow> update \<Rightarrow> reply list" where
  "view_filtered database upd =
     (if \<not> is_admin database (effective_user_id upd) then [ReplyText no_permission_text None]
      else
        (let MESSAGES_PER_PAGE = 5;
             page = 1;
             total_count = get_filtered_messages_count database
         in if total_count = 0 then [ReplyText nothing_found_text None]
            else
              (let total_pages = (total_count + MESSAGES_PER_PAGE - 1) div MESSAGES_PER_PAGE;
                   offset = (page - 1) * MESSAGES_PER_PAGE;
                   messages = get_filtered_messages database MESSAGES_PER_PAGE offset
               in if messages = [] then [ReplyText nothing_found_text None]
                  else
                    (let response = format_filtered_messages messages page total_pages;
                         kb = get_filtered_messages_keyboard page total_pages
                     in (case kb of
                           Some k \<Rightarrow> [ReplyText response (Some k)]
                         | None \<Rightarrow> [ReplyText response None])))))"

section \<open>\<open>_get_local_question\<close> on a store of objects\<close>

text \<open>
  Whether \<open>_get_local_question\<close> changes the bank depends on which list object
  \<open>random.shuffle\<close> mutates, so here lists and dicts are objects in a store and a value
  is a string or a reference. The objects the module creates when it is loaded have fixed
  addresses: the list \<open>LOCAL_VERIFICATION_QUESTIONS\<close> at \<open>TableAddr\<close>, its \<open>i\<close>-th
  dict at \<open>EntryAddr i\<close>, the list of incorrect answers of that dict at
  \<open>AnswersAddr i\<close>. Every object created later gets the next \<open>Fresh\<close> address.
\<close>

datatype addr = TableAddr | EntryAddr nat | AnswersAddr nat | Fresh nat

datatype hval = VStr pystr | VRef addr

datatype obj = ListObj "hval list" | DictObj "(pystr \<times> hval) list"

record store =
  objects :: "addr \<Rightarrow> obj option"
  next_fresh :: nat

text \<open>The store after the module is loaded.\<close>

definition bank_store :: store where
  "bank_store =
     \<lparr>objects =
        (\<lambda>a. case a of
           TableAddr \<Rightarrow>
             Some (ListObj (map (\<lambda>i. VRef (EntryAddr i))
                              [0..<length LOCAL_VERIFICATION_QUESTIONS]))
         | EntryAddr i \<Rightarrow>
             if i < length LOCAL_VERIFICATION_QUESTIONS then
               Some (DictObj
                 [(ascii ''question'', VStr (bank_question (LOCAL_VERIFICATION_QUESTIONS ! i))),
                  (ascii ''correct_answer'',
                     VStr (bank_correct_answer (LOCAL_VERIFICATION_QUESTIONS ! i))),
                  (ascii ''incorrect_answers'', VRef (AnswersAddr i))])
             else None
         | AnswersAddr i \<Rightarrow>
             if i < length LOCAL_VERIFICATION_QUESTIONS then
               Some (ListObj (map VStr (bank_incorrect_answers (LOCAL_VERIFICATION_QUESTIONS ! i))))
             else None
         | Fresh n \<Rightarrow> None),
      next_fresh = 0\<rparr>"

text \<open>Creating an object; reading a list; \<open>d[key]\<close>; \<open>random.shuffle\<close> of a list object, in place.\<close>

definition alloc :: "obj \<Rightarrow> store \<Rightarrow> addr \<times> store" where
  "alloc ob s =
     (Fresh (next_fresh s),
      s\<lparr>objects := (objects s)(Fresh (next_fresh s) \<mapsto> ob), next_fresh := next_fresh s + 1\<rparr>)"

definition read_list :: "store \<Rightarrow> hval \<Rightarrow> exn + hval list" where
  "read_list s v =
     (case v of
        VStr t \<Rightarrow> Inl TypeError
      | VRef a \<Rightarrow>
          (case objects s a of
             Some (ListObj xs) \<Rightarrow> Inr xs
           | _ \<Rightarrow> Inl TypeError))"

definition read_item :: "store \<Rightarrow> hval \<Rightarrow> pystr \<Rightarrow> exn + hval" where
  "read_item s v key =
     (case v of
        VStr t \<Rightarrow> Inl TypeError
      | VRef a \<Rightarrow>
          (case objects s a of
             Some (DictObj items) \<Rightarrow>
               (case map_of items key of None \<Rightarrow> Inl KeyError | Some x \<Rightarrow> Inr x)
           | _ \<Rightarrow> Inl TypeError))"

definition shuffle_at :: "addr \<Rightarrow> store \<Rightarrow> rng \<Rightarrow> store \<times> rng" where
  "shuffle_at a s g =
     (case objects s a of
        Some (ListObj xs) \<Rightarrow>
          (let (ys, g') = shuffle xs g in (s\<lparr>objects := (objects s)(a \<mapsto> ListObj ys)\<rparr>, g'))
      | _ \<Rightarrow> (s, g))"

text \<open>
  \<open>_get_local_question\<close>, statement by statement: the table is read and an entry
  chosen; the correct answer is read; \<open>+\<close> builds a new list object from the entry's
  list and the correct answer; that object is shuffled in place; the result is a new
  dict that refers to it. The result is the address of the returned dict.
\<close>

definition get_local_question_st :: "store \<Rightarrow> rng \<Rightarrow> (exn + addr) \<times> store \<times> rng" where
  "get_local_question_st s g =
     (case read_list s (VRef TableAddr) of
        Inl e \<Rightarrow> (Inl e, s, g)
      | Inr table \<Rightarrow>
          (case choice table g of
             (Inl e, g1) \<Rightarrow> (Inl e, s, g1)
           | (Inr question_data, g1) \<Rightarrow>
               (case read_item s question_data (ascii ''correct_answer'') of
                  Inl e \<Rightarrow> (Inl e, s, g1)
                | Inr correct \<Rightarrow>
                    (case read_item s question_data (ascii ''incorrect_answers'') of
                       Inl e \<Rightarrow> (Inl e, s, g1)
                     | Inr incorrect \<Rightarrow>
                         (case read_list s incorrect of
                            Inl e \<Rightarrow> (Inl e, s, g1)
                          | Inr xs \<Rightarrow>
                              (let (opts, s1) = alloc (ListObj (xs @ [correct])) s;
                                   (s2, g2) = shuffle_at opts s1 g1
                               in (case read_item s2 question_data (ascii ''question'') of
                                     Inl e \<Rightarrow> (Inl e, s2, g2)
                                   | Inr q \<Rightarrow>
                                       (let (res, s3) =
                                              alloc (DictObj [(ascii ''question'', q),
                                                              (ascii ''correct_answer'', correct),
                                                              (ascii ''options'', VRef opts)]) s2
                                        in (Inr res, s3, g2)))))))))"

text \<open>Any number of calls, one after the other.\<close>

fun calls :: "nat \<Rightarrow> store \<Rightarrow> rng \<Rightarrow> store \<times> rng" where
  "calls 0 s g = (s, g)"
| "calls (Suc n) s g = (let (r, s', g') = get_local_question_st s g in calls n s' g')"

text \<open>
  The objects of the module in a store, and the bank as it reads in a store: the table
  list is followed to each dict, each dict to its two strings and its list of strings.
\<close>

definition module_objects :: "store \<Rightarrow> addr \<Rightarrow> obj option" where
  "module_objects s = (\<lambda>a. case a of Fresh n \<Rightarrow> None | _ \<Rightarrow> objects s a)"

fun read_str :: "hval \<Rightarrow> pystr option" where
  "read_str (VStr t) = Some t"
| "read_str (VRef a) = None"

definition read_entry :: "store \<Rightarrow> hval \<Rightarrow> bank_entry option" where
  "read_entry s v =
     (case read_item s v (ascii ''question'') of
        Inr (VStr q) \<Rightarrow>
          (case read_item s v (ascii ''correct_answer'') of
             Inr (VStr c) \<Rightarrow>
               (case read_item s v (ascii ''incorrect_answers'') of
                  Inr l \<Rightarrow>
                    (case read_list s l of
                       Inr xs \<Rightarrow> map_option (BankEntry q c) (those (map read_str xs))
                     | Inl e \<Rightarrow> None)
                | Inl e \<Rightarrow> None)
           | _ \<Rightarrow> None)
      | _ \<Rightarrow> None)"

definition read_bank :: "store \<Rightarrow> bank_entry list option" where
  "read_bank s =
     (case read_list s (VRef TableAddr) of
        Inr table \<Rightarrow> those (map (read_entry s) table)
      | Inl e \<Rightarrow> None)"

text \<open>A returned question as it reads in a store.\<close>

definition read_question :: "store \<Rightarrow> addr \<Rightarrow> verification_question option" where
  "read_question s r =
     (case read_item s (VRef r) (ascii ''question'') of
        Inr (VStr q) \<Rightarrow>
          (case read_item s (VRef r) (ascii ''correct_answer'') of
             Inr (VStr c) \<Rightarrow>
               (case read_item s (VRef r) (ascii ''options'') of
                  Inr l \<Rightarrow>
                    (case read_list s l of
                       Inr xs \<Rightarrow>
                         map_option
                           (\<lambda>opts. \<lparr>question = PStr q, correct_answer = PStr c,
                                     options = map PStr opts\<rparr>)
                           (those (map read_str xs))
                     | Inl e \<Rightarrow> None)
                | Inl e \<Rightarrow> None)
           | _ \<Rightarrow> None)
      | _ \<Rightarrow> None)"

section \<open>Properties stated by the specification\<close>

text \<open>
  The option-set invariant of a verification question: four options, the correct answer
  among them exactly once, three options that differ from it. Entries are compared as
  values; for strings this is Python's \<open>==\<close>.
\<close>

definition options_invariant :: "verification_question \<Rightarrow> bool" where
  "options_invariant r =
     (length (options r) = 4 \<and>
      count_list (options r) (correct_answer r) = 1 \<and>
      length (filter (\<lambda>x. x \<noteq> correct_answer r) (options r)) = 3)"

text \<open>
  The provider path of question generation succeeds when the service is configured, the
  provider answers the prompt with a non-empty text, the text parses after the fences
  are stripped, and the parsed value is a \<open>dict\<close> with the keys \<open>question\<close>,
  \<open>correct_answer\<close> and \<open>incorrect_answers\<close>, the last holding a list. \<open>ai_reply\<close>
  gives the three values then, and \<open>None\<close> in every other case.
\<close>

fun as_list :: "pyval \<Rightarrow> pyval list option" where
  "as_list (PList xs) = Some xs"
| "as_list _ = None"

definition ai_reply :: "env \<Rightarrow> model_service \<Rightarrow> pystr \<Rightarrow> (pyval \<times> pyval \<times> pyval list) option" where
  "ai_reply env svc prompt =
     (case adapter svc of
        None \<Rightarrow> None
      | Some a \<Rightarrow>
          (case verification_model_name svc of
             None \<Rightarrow> None
           | Some m \<Rightarrow>
               if m = [] then None
               else
                 (case adapter_generate_content env a (Some m) [TextPart prompt] of
                    Inl e \<Rightarrow> None
                  | Inr None \<Rightarrow> None
                  | Inr (Some t) \<Rightarrow>
                      if t = [] then None
                      else
                        (case json_loads env (strip (sub_fences t)) of
                           Inl e \<Rightarrow> None
                         | Inr data \<Rightarrow>
                             (case (subscript data (ascii ''question''),
                                    subscript data (ascii ''correct_answer''),
                                    subscript data (ascii ''incorrect_answers'')) of
                                (Inr q, Inr c, Inr v) \<Rightarrow>
                                  (case as_list v of
                                     Some xs \<Rightarrow> Some (q, c, xs)
                                   | None \<Rightarrow> None)
                              | _ \<Rightarrow> None)))))"

text \<open>
  A question comes from the local bank when some entry of the bank gives its question
  and its correct answer, and its options are a permutation of that entry's incorrect
  answers followed by its correct answer.
\<close>

definition from_bank :: "verification_question \<Rightarrow> bool" where
  "from_bank r =
     list_ex
       (\<lambda>e. question r = PStr (bank_question e) \<and>
            correct_answer r = PStr (bank_correct_answer e) \<and>
            mset (options r) =
              mset (map PStr (bank_incorrect_answers e @ [bank_correct_answer e])))
       LOCAL_VERIFICATION_QUESTIONS"

definition challenge_ok :: "env \<Rightarrow> model_service \<Rightarrow> pystr \<Rightarrow> exn + verification_question \<Rightarrow> bool" where
  "challenge_ok env svc prompt outcome =
     (case outcome of
        Inl e \<Rightarrow> False
      | Inr r \<Rightarrow>
          (case ai_reply env svc prompt of
             None \<Rightarrow> from_bank r \<and> options_invariant r
           | Some (q, c, xs) \<Rightarrow>
               question r = q \<and> correct_answer r = c \<and>
               mset (options r) = mset (xs @ [c]) \<and>
               (options_invariant r \<longleftrightarrow> (length xs = 3 \<and> c \<notin> set xs))))"

subsection \<open>The relay contract\<close>

text \<open>
  The nine kinds of a message, in the order the specification checks them, and when a
  kind counts as populated.
\<close>

datatype kind =
  KText | KPhoto | KAnimation | KVideo | KDocument | KAudio | KVoice | KVideoNote | KSticker

definition kind_order :: "kind list" where
  "kind_order = [KText, KPhoto, KAnimation, KVideo, KDocument, KAudio, KVoice, KVideoNote, KSticker]"

fun populated :: "message \<Rightarrow> kind \<Rightarrow> bool" where
  "populated m KText = truthy (msg_text m)"
| "populated m KPhoto = (photo m \<noteq> [])"
| "populated m KAnimation = (animation m \<noteq> None)"
| "populated m KVideo = (video m \<noteq> None)"
| "populated m KDocument = (document m \<noteq> None)"
| "populated m KAudio = (audio m \<noteq> None)"
| "populated m KVoice = (voice m \<noteq> None)"
| "populated m KVideoNote = (video_note m \<noteq> None)"
| "populated m KSticker = (sticker m \<noteq> None)"

text \<open>
  The send the specification prescribes for a kind: text with its entities and the
  link-preview flag; a photo by the last entry of its size list, with caption and caption
  entities; animation, video, document, audio and voice by their file reference, with
  caption and caption entities; a video note and a sticker by their file reference alone.
\<close>

fun relay_call :: "kind \<Rightarrow> message \<Rightarrow> int \<Rightarrow> int option \<Rightarrow> bool \<Rightarrow> bot_call" where
  "relay_call KText m chat thread suppress =
     SendMessage chat (the (msg_text m)) (entities m) thread (Some suppress)"
| "relay_call KPhoto m chat thread suppress =
     SendPhoto chat (file_id (last (photo m))) (caption m) (caption_entities m) thread"
| "relay_call KAnimation m chat thread suppress =
     SendAnimation chat (file_id (the (animation m))) (caption m) (caption_entities m) thread"
| "relay_call KVideo m chat thread suppress =
     SendVideo chat (file_id (the (video m))) (caption m) (caption_entities m) thread"
| "relay_call KDocument m chat thread suppress =
     SendDocument chat (file_id (the (document m))) (caption m) (caption_entities m) thread"
| "relay_call KAudio m chat thread suppress =
     SendAudio chat (file_id (the (audio m))) (caption m) (caption_entities m) thread"
| "relay_call KVoice m chat thread suppress =
     SendVoice chat (file_id (the (voice m))) (caption m) (caption_entities m) thread"
| "relay_call KVideoNote m chat thread suppress =
     SendVideoNote chat (file_id (the (video_note m))) thread"
| "relay_call KSticker m chat thread suppress =
     SendSticker chat (file_id (the (sticker m))) thread"

text \<open>The relay of the specification: the first populated kind decides, if there is one.\<close>

definition relay :: "message \<Rightarrow> int \<Rightarrow> int option \<Rightarrow> bool \<Rightarrow> bot_call option" where
  "relay m chat thread suppress =
     (case find (populated m) kind_order of
        None \<Rightarrow> None
      | Some k \<Rightarrow> Some (relay_call k m chat thread suppress))"

subsection \<open>Pagination\<close>

definition previous_button :: "int \<Rightarrow> button" where
  "previous_button page =
     InlineKeyboardButton ([0x4E0A, 0x4E00, 0x9875]) (ascii ''filtered_page_'' @ str_int (page - 1))"

definition next_button :: "int \<Rightarrow> button" where
  "next_button page =
     InlineKeyboardButton ([0x4E0B, 0x4E00, 0x9875]) (ascii ''filtered_page_'' @ str_int (page + 1))"

subsection \<open>The auto-reply contract\<close>

text \<open>
  The conditions under which the specification makes the auto-reply absent before any
  request: the service is not configured, or the knowledge base is absent or consists of
  whitespace only. \<open>provider_text\<close> is the text of a provider call that succeeds with a
  non-empty response, \<open>suppressed\<close> says that a text holds one of the two markers.
\<close>

definition not_configured :: "model_service \<Rightarrow> bool" where
  "not_configured svc = (adapter svc = None \<or> filter_model_name svc = None \<or> filter_model_name svc = Some [])"

definition blank :: "pystr option \<Rightarrow> bool" where
  "blank kb = (case kb of None \<Rightarrow> True | Some k \<Rightarrow> list_all isspace k)"

definition provider_text :: "env \<Rightarrow> model_service \<Rightarrow> content list \<Rightarrow> pystr option" where
  "provider_text env svc contents =
     (case adapter svc of
        None \<Rightarrow> None
      | Some a \<Rightarrow>
          (case adapter_generate_content env a (filter_model_name svc) contents of
             Inl e \<Rightarrow> None
           | Inr None \<Rightarrow> None
           | Inr (Some t) \<Rightarrow> if t = [] then None else Some t))"

definition suppressed :: "pystr \<Rightarrow> bool" where
  "suppressed t =
     ((\<exists>before after. t = before @ marker_cannot_answer @ after) \<or>
      (\<exists>before after. t = before @ marker_sorry @ after))"

definition autoreply_spec :: "env \<Rightarrow> model_service \<Rightarrow> pystr \<Rightarrow> pystr option \<Rightarrow> pystr option" where
  "autoreply_spec env svc user_message kb =
     (if not_configured svc \<or> blank kb then None
      else
        (case provider_text env svc
                [TextPart (join [0xA] (autoreply_prompt_parts user_message (the kb)))] of
           None \<Rightarrow> None
         | Some t \<Rightarrow> if suppressed t then None else Some (strip t)))"

subsection \<open>The content of an analysis request\<close>

text \<open>
  The content parts the specification builds from a message: its text, if it has one,
  then the opened image, if image bytes are supplied and open.
\<close>

definition analysis_parts :: "env \<Rightarrow> message \<Rightarrow> bytes option \<Rightarrow> content list" where
  "analysis_parts env m image_bytes =
     (if truthy (msg_text m) then [TextPart (the (msg_text m))] else []) @
     (case image_bytes of
        None \<Rightarrow> []
      | Some b \<Rightarrow>
          (case image_open env b of
             None \<Rightarrow> []
           | Some img \<Rightarrow> if b = [] then [] else [ImagePart img]))"

section \<open>Concrete inputs\<close>

text \<open>
  A configured service, and an outside world in which the provider answers every request
  with the text \<open>reply\<close> and \<open>json.loads\<close> parses exactly the text \<open>clean\<close>, to
  \<open>parsed\<close>; every other text is malformed. No image opens.
\<close>

definition ex_svc :: model_service where
  "ex_svc = \<lparr>adapter = Some (GeminiAdapter (ascii ''key'') None),
             filter_model_name = Some (ascii ''gemini-2.5-flash''),
             verification_model_name = Some (ascii ''gemini-2.5-flash-lite'')\<rparr>"

definition reply_env :: "pystr \<Rightarrow> pystr \<Rightarrow> pyval \<Rightarrow> env" where
  "reply_env reply clean parsed =
     \<lparr>client_error = (\<lambda>s. None),
      adapter_generate_content = (\<lambda>a m c. Inr (Some reply)),
      json_loads = (\<lambda>s. if s = clean then Inr parsed else Inl JSONDecodeError),
      image_open = (\<lambda>b. None),
      image_decodes = (\<lambda>i. False)\<rparr>"

text \<open>
  A well-formed answer to the question prompt: the JSON text and the \<open>dict\<close> it parses to.
\<close>

definition good_question_text :: pystr where
  "good_question_text =
     [0x7B, 0x22] @ ascii ''question'' @ [0x22] @ ascii '': '' @ [0x22] @ ascii ''Q'' @ [0x22] @
     ascii '', '' @ [0x22] @ ascii ''correct_answer'' @ [0x22] @ ascii '': '' @ [0x22] @ ascii ''A'' @ [0x22] @
     ascii '', '' @ [0x22] @ ascii ''incorrect_answers'' @ [0x22] @ ascii '': ['' @
     [0x22] @ ascii ''B'' @ [0x22] @ ascii '', '' @ [0x22] @ ascii ''C'' @ [0x22] @ ascii '', '' @
     [0x22] @ ascii ''D'' @ [0x22] @ ascii '']'' @ [0x7D]"

definition good_question_dict :: pyval where
  "good_question_dict =
     PDict [(ascii ''question'', PStr (ascii ''Q'')),
            (ascii ''correct_answer'', PStr (ascii ''A'')),
            (ascii ''incorrect_answers'', PList [PStr (ascii ''B''), PStr (ascii ''C''), PStr (ascii ''D'')])]"

text \<open>
  An answer the prompt does not ask for, but a provider can give: two incorrect answers,
  one of them equal to the correct answer.
\<close>

definition bad_question_text :: pystr where
  "bad_question_text =
     [0x7B, 0x22] @ ascii ''question'' @ [0x22] @ ascii '': '' @ [0x22] @ ascii ''Q'' @ [0x22] @
     ascii '', '' @ [0x22] @ ascii ''correct_answer'' @ [0x22] @ ascii '': '' @ [0x22] @ ascii ''A'' @ [0x22] @
     ascii '', '' @ [0x22] @ ascii ''incorrect_answers'' @ [0x22] @ ascii '': ['' @
     [0x22] @ ascii ''A'' @ [0x22] @ ascii '', '' @ [0x22] @ ascii ''B'' @ [0x22] @ ascii '']'' @ [0x7D]"

definition bad_question_dict :: pyval where
  "bad_question_dict =
     PDict [(ascii ''question'', PStr (ascii ''Q'')),
            (ascii ''correct_answer'', PStr (ascii ''A'')),
            (ascii ''incorrect_answers'', PList [PStr (ascii ''A''), PStr (ascii ''B'')])]"

text \<open>
  Messages with nothing populated, with a text, and with a photo in two sizes and a
  caption; a staff update posted in topic 42 and a database that binds topic 42 to
  user 777, knows user 1 as admin and holds twelve filtered messages.
\<close>

definition empty_message :: message where
  "empty_message =
     \<lparr>msg_text = None, entities = [], photo = [], animation = None, video = None,
      document = None, audio = None, voice = None, video_note = None, sticker = None,
      caption = None, caption_entities = [], is_topic_message = True,
      message_thread_id = Some 42\<rparr>"

definition solved_text :: pystr where
  "solved_text = [0x60A8, 0x7684, 0x95EE, 0x9898, 0x5DF2, 0x89E3, 0x51B3]"

definition text_message :: message where
  "text_message = empty_message\<lparr>msg_text := Some solved_text,
     entities := [MessageEntity (ascii ''bold'') 0 2]\<rparr>"

definition photo_message :: message where
  "photo_message = empty_message\<lparr>photo := [FileRef (ascii ''small''), FileRef (ascii ''large'')],
     caption := Some (ascii ''see''), caption_entities := [MessageEntity (ascii ''italic'') 0 3]\<rparr>"

definition ex_row :: filtered_row where
  "ex_row = \<lparr>first_name = Some (ascii ''Ann''), username = None, reason = Some (ascii ''spam''),
     content = Some (ascii ''buy now''), filtered_at = Some (ascii ''2024-01-01'')\<rparr>"

definition ex_db :: "int \<Rightarrow> db" where
  "ex_db n =
     \<lparr>is_admin = (\<lambda>u. u = 1),
      get_user_by_thread_id = (\<lambda>t. if t = Some 42 then Some \<lparr>user_id = 777\<rparr> else None),
      get_filtered_messages_count = n,
      get_filtered_messages = (\<lambda>limit offset. [ex_row])\<rparr>"

definition ex_update :: "message \<Rightarrow> update" where
  "ex_update m = \<lparr>upd_message = Some m, effective_user_id = 1\<rparr>"

text \<open>An outside world in which every SDK is installed and the provider returns nothing useful.\<close>

definition ok_env :: env where
  "ok_env = reply_env [] [] PNone"

text \<open>
  Two provider responses to an auto-reply request: an answer with an apology inside it,
  and an answer with whitespace around it.
\<close>

definition apologetic_reply :: pystr where
  "apologetic_reply = [0x8BF7, 0x91CD, 0x542F, 0x8DEF, 0x7531, 0x5668, 0x3002, 0x62B1, 0x6B49, 0x8BA9] @
        [0x60A8, 0x4E45, 0x7B49, 0x4E86]"

definition padded_reply :: pystr where
  "padded_reply = ascii ''  '' @ [0x8BF7, 0x91CD, 0x542F, 0x8DEF, 0x7531, 0x5668, 0x3002, 0xA]"

definition trimmed_reply :: pystr where
  "trimmed_reply = [0x8BF7, 0x91CD, 0x542F, 0x8DEF, 0x7531, 0x5668, 0x3002]"

text \<open>A service with no adapter, and a message whose text is an insult.\<close>

definition no_svc :: model_service where
  "no_svc = \<lparr>adapter = None, filter_model_name = None, verification_model_name = None\<rparr>"

definition abusive_message :: message where
  "abusive_message = empty_message\<lparr>msg_text := Some ([0x4F60, 0x8FD9, 0x4E2A, 0x767D, 0x75F4])\<rparr>"

text \<open>
  The fenced verdict of the specification and the JSON text inside it; and a fenced
  verdict whose reason holds three backticks, with the text that stripping leaves of it.
\<close>

definition fenced_verdict :: pystr where
  "fenced_verdict = ascii ''```json'' @ [0xA] @ ascii ''{'' @ [0x22] @ ascii ''is_spam'' @ [0x22] @
        ascii '': true, '' @ [0x22] @ ascii ''reason'' @ [0x22] @ ascii '': '' @
        [0x22, 0x8FB1, 0x9A82, 0x22] @ ascii ''}'' @ [0xA] @ ascii ''```''"

definition verdict_text :: pystr where
  "verdict_text = ascii ''{'' @ [0x22] @ ascii ''is_spam'' @ [0x22] @ ascii '': true, '' @ [0x22] @
        ascii ''reason'' @ [0x22] @ ascii '': '' @ [0x22, 0x8FB1, 0x9A82, 0x22] @ ascii ''}''"

definition insult :: pystr where
  "insult = [0x8FB1, 0x9A82]"

definition fenced_backticks :: pystr where
  "fenced_backticks = ascii ''```json'' @ [0xA] @ ascii ''{'' @ [0x22] @ ascii ''is_spam'' @ [0x22] @
        ascii '': true, '' @ [0x22] @ ascii ''reason'' @ [0x22] @ ascii '': '' @ [0x22] @
        ascii ''uses ``` marks'' @ [0x22] @ ascii ''}'' @ [0xA] @ ascii ''```''"

definition backticks_stripped :: pystr where
  "backticks_stripped = ascii ''{'' @ [0x22] @ ascii ''is_spam'' @ [0x22] @ ascii '': true, '' @ [0x22] @
        ascii ''reason'' @ [0x22] @ ascii '': '' @ [0x22] @ ascii ''uses marks'' @ [0x22] @
        ascii ''}''"

text \<open>
  The first 41 bytes of a one-pixel PNG file: the signature, the header chunk and the
  first eight bytes of the data chunk. \<open>Image.open\<close> reads the header and accepts them;
  the pixel data is missing, so decoding fails. \<open>opening_env\<close> is \<open>reply_env\<close> with these
  bytes opening.
\<close>

definition truncated_png :: bytes where
  "truncated_png =
     [0x89, 0x50, 0x4E, 0x47, 0x0D, 0x0A, 0x1A, 0x0A,
      0x00, 0x00, 0x00, 0x0D, 0x49, 0x48, 0x44, 0x52,
      0x00, 0x00, 0x00, 0x01, 0x00, 0x00, 0x00, 0x01, 0x08, 0x02, 0x00, 0x00, 0x00,
      0x90, 0x77, 0x53, 0xDE,
      0x00, 0x00, 0x00, 0x0C, 0x49, 0x44, 0x41, 0x54]"

definition opening_env :: "pystr \<Rightarrow> pystr \<Rightarrow> pyval \<Rightarrow> env" where
  "opening_env reply clean parsed =
     (reply_env reply clean parsed)
       \<lparr>image_open := (\<lambda>b. if b = truncated_png then Some (Image b) else None)\<rparr>"

section \<open>Facts about strings\<close>

lemma contains_iff: "contains s sub \<longleftrightarrow> (\<exists>before after. s = before @ sub @ after)"
proof (induction s)
  case Nil
  then show ?case by auto
next
  case (Cons c cs)
  show ?case
  proof
    assume "contains (c # cs) sub"
    then consider "prefix sub (c # cs)" | "contains cs sub" by auto
    then show "\<exists>before after. c # cs = before @ sub @ after"
    proof cases
      case 1
      then obtain after where "c # cs = sub @ after" by (auto simp: prefix_def)
      then have "c # cs = [] @ sub @ after" by simp
      then show ?thesis by blast
    next
      case 2
      then obtain before after where "cs = before @ sub @ after" using Cons.IH by blast
      then have "c # cs = (c # before) @ sub @ after" by simp
      then show ?thesis by blast
    qed
  next
    assume "\<exists>before after. c # cs = before @ sub @ after"
    then obtain before after where e: "c # cs = before @ sub @ after" by blast
    show "contains (c # cs) sub"
    proof (cases before)
      case Nil
      with e have "prefix sub (c # cs)" by (simp add: prefix_def)
      then show ?thesis by simp
    next
      case (Cons b bs)
      with e have "cs = bs @ sub @ after" by simp
      then have "contains cs sub" using Cons.IH by blast
      then show ?thesis by simp
    qed
  qed
qed

lemma strip_empty_iff: "strip s = [] \<longleftrightarrow> list_all isspace s"
proof -
  let ?d = "dropWhile isspace s"
  have "(\<forall>x\<in>set ?d. isspace x) \<longleftrightarrow> (\<forall>x\<in>set s. isspace x)"
  proof
    assume all: "\<forall>x\<in>set ?d. isspace x"
    have "?d = []"
    proof (rule ccontr)
      assume ne: "?d \<noteq> []"
      then have "hd ?d \<in> set ?d" by simp
      moreover have "\<not> isspace (hd ?d)" using ne by (rule hd_dropWhile)
      ultimately show False using all by blast
    qed
    then show "\<forall>x\<in>set s. isspace x" by simp
  next
    assume "\<forall>x\<in>set s. isspace x"
    then show "\<forall>x\<in>set ?d. isspace x" by (meson set_dropWhileD)
  qed
  then show ?thesis
    by (simp add: strip_def list_all_iff)
qed

section \<open>Shuffling and the local bank\<close>

lemma randbelow_less: "0 < n \<Longrightarrow> fst (randbelow n g) < n"
  by (simp add: randbelow_def split: list.splits)

lemma mset_shuffle_loop: "i < length x \<Longrightarrow> mset (fst (shuffle_loop i x g)) = mset x"
proof (induction i arbitrary: x g)
  case 0
  then show ?case by simp
next
  case (Suc i)
  obtain j g' where r: "randbelow (Suc i + 1) g = (j, g')" by (cases "randbelow (Suc i + 1) g")
  have "fst (randbelow (Suc i + 1) g) < Suc i + 1" by (rule randbelow_less) simp
  with r have j: "j < length x" using Suc.prems by simp
  let ?x' = "x[Suc i := x ! j, j := x ! Suc i]"
  have "mset ?x' = mset x" using mset_swap [of j x "Suc i"] j Suc.prems by simp
  moreover have "mset (fst (shuffle_loop i ?x' g')) = mset ?x'"
    using Suc.IH [of ?x' g'] Suc.prems by simp
  ultimately show ?case using r by simp
qed

lemma mset_shuffle: "mset (fst (shuffle x g)) = mset x"
proof (cases x)
  case Nil
  then show ?thesis by (simp add: shuffle_def)
next
  case (Cons a as)
  then show ?thesis by (simp add: shuffle_def mset_shuffle_loop)
qed

lemma length_bank: "length LOCAL_VERIFICATION_QUESTIONS = 29"
  by (simp add: LOCAL_VERIFICATION_QUESTIONS_def)

lemma bank_ok:
  "list_all (\<lambda>e. length (bank_incorrect_answers e) = 3 \<and>
       bank_correct_answer e \<notin> set (bank_incorrect_answers e)) LOCAL_VERIFICATION_QUESTIONS"
  by (simp add: LOCAL_VERIFICATION_QUESTIONS_def ascii_def)

lemma options_invariant_perm:
  assumes "mset (options r) = mset (xs @ [correct_answer r])"
  shows "options_invariant r \<longleftrightarrow> (length xs = 3 \<and> correct_answer r \<notin> set xs)"
proof -
  let ?c = "correct_answer r"
  have l: "length (options r) = length xs + 1"
    using assms by (metis length_append_singleton mset_eq_length Suc_eq_plus1)
  have c: "count_list (options r) ?c = count_list xs ?c + 1"
    using assms by (metis count_list_append count_list.simps count_mset add.commute add.right_neutral)
  have f: "length (filter (\<lambda>x. x \<noteq> ?c) (options r)) = length (filter (\<lambda>x. x \<noteq> ?c) xs)"
  proof -
    have "mset (filter (\<lambda>x. x \<noteq> ?c) (options r)) = mset (filter (\<lambda>x. x \<noteq> ?c) (xs @ [?c]))"
      using assms by (simp only: mset_filter)
    then have "length (filter (\<lambda>x. x \<noteq> ?c) (options r)) = length (filter (\<lambda>x. x \<noteq> ?c) (xs @ [?c]))"
      by (rule mset_eq_length)
    then show ?thesis by simp
  qed
  show ?thesis
  proof
    assume "options_invariant r"
    then show "length xs = 3 \<and> ?c \<notin> set xs"
      using l c by (auto simp: options_invariant_def count_list_0_iff)
  next
    assume a: "length xs = 3 \<and> ?c \<notin> set xs"
    then have "filter (\<lambda>x. x \<noteq> ?c) xs = xs" by (auto simp: filter_id_conv)
    then show "options_invariant r"
      using a l c f by (simp add: options_invariant_def count_list_0_iff)
  qed
qed

lemma get_local_question_ok:
  "\<exists>e opts g'. e \<in> set LOCAL_VERIFICATION_QUESTIONS \<and>
     get_local_question g =
       (Inr \<lparr>question = PStr (bank_question e), correct_answer = PStr (bank_correct_answer e),
             options = map PStr opts\<rparr>, g') \<and>
     mset opts = mset (bank_incorrect_answers e @ [bank_correct_answer e])"
proof -
  let ?B = LOCAL_VERIFICATION_QUESTIONS
  obtain i g1 where r: "randbelow (length ?B) g = (i, g1)" by (cases "randbelow (length ?B) g")
  have "fst (randbelow (length ?B) g) < length ?B"
    by (rule randbelow_less) (simp add: length_bank)
  with r have i: "i < length ?B" by simp
  have ne: "?B \<noteq> []" using length_bank by auto
  let ?e = "?B ! i"
  let ?xs = "bank_incorrect_answers ?e @ [bank_correct_answer ?e]"
  obtain opts g2 where s: "shuffle ?xs g1 = (opts, g2)" by (cases "shuffle ?xs g1")
  have "mset opts = mset ?xs" using mset_shuffle [of ?xs g1] s by simp
  moreover have "?e \<in> set ?B" using i by simp
  moreover have "get_local_question g =
       (Inr \<lparr>question = PStr (bank_question ?e), correct_answer = PStr (bank_correct_answer ?e),
             options = map PStr opts\<rparr>, g2)"
    using r s ne by (simp add: get_local_question_def choice_def Let_def)
  ultimately show ?thesis by blast
qed

lemma get_local_question_invariant:
  "\<exists>r. fst (get_local_question g) = Inr r \<and> from_bank r \<and> options_invariant r"
proof -
  obtain e opts g' where e: "e \<in> set LOCAL_VERIFICATION_QUESTIONS"
    and q: "get_local_question g =
       (Inr \<lparr>question = PStr (bank_question e), correct_answer = PStr (bank_correct_answer e),
             options = map PStr opts\<rparr>, g')"
    and m: "mset opts = mset (bank_incorrect_answers e @ [bank_correct_answer e])"
    using get_local_question_ok by blast
  let ?r = "\<lparr>question = PStr (bank_question e), correct_answer = PStr (bank_correct_answer e),
             options = map PStr opts\<rparr>"
  have ok: "length (bank_incorrect_answers e) = 3 \<and>
       bank_correct_answer e \<notin> set (bank_incorrect_answers e)"
    using bank_ok e by (simp add: list_all_iff)
  have "mset (options ?r) = mset (map PStr (bank_incorrect_answers e) @ [correct_answer ?r])"
    using arg_cong [OF m, of "image_mset PStr"] by simp
  then have "options_invariant ?r \<longleftrightarrow>
      (length (map PStr (bank_incorrect_answers e)) = 3 \<and>
       correct_answer ?r \<notin> set (map PStr (bank_incorrect_answers e)))"
    by (rule options_invariant_perm)
  then have "options_invariant ?r" using ok by auto
  moreover have "mset (options ?r) =
      mset (map PStr (bank_incorrect_answers e @ [bank_correct_answer e]))"
    using arg_cong [OF m, of "image_mset PStr"] by simp
  then have "from_bank ?r" using e by (auto simp: from_bank_def list_ex_iff)
  ultimately show ?thesis using q by simp
qed

lemma add_list_as_list:
  "add_list v ys = (case as_list v of Some xs \<Rightarrow> Inr (xs @ ys) | None \<Rightarrow> Inl TypeError)"
  by (cases v) simp_all

lemma ai_reply_SomeD:
  assumes "ai_reply env svc prompt = Some (q, c, xs)"
  shows "\<exists>a m t data v. adapter svc = Some a \<and> verification_model_name svc = Some m \<and> m \<noteq> [] \<and>
           adapter_generate_content env a (Some m) [TextPart prompt] = Inr (Some t) \<and> t \<noteq> [] \<and>
           json_loads env (strip (sub_fences t)) = Inr data \<and>
           subscript data (ascii ''question'') = Inr q \<and>
           subscript data (ascii ''correct_answer'') = Inr c \<and>
           subscript data (ascii ''incorrect_answers'') = Inr v \<and> as_list v = Some xs"
  using assms unfolding ai_reply_def
  by (simp split: option.splits sum.splits if_splits)

lemma unblock_provider:
  assumes "ai_reply env svc unblock_prompt = Some (q, c, xs)"
  shows "fst (generate_unblock_question env svc g) =
           Inr \<lparr>question = q, correct_answer = c, options = fst (shuffle (xs @ [c]) g)\<rparr>"
proof -
  from ai_reply_SomeD [OF assms] obtain a m t data v where
    "adapter svc = Some a" "verification_model_name svc = Some m" "m \<noteq> []"
    "adapter_generate_content env a (Some m) [TextPart unblock_prompt] = Inr (Some t)" "t \<noteq> []"
    "json_loads env (strip (sub_fences t)) = Inr data"
    "subscript data (ascii ''question'') = Inr q"
    "subscript data (ascii ''correct_answer'') = Inr c"
    "subscript data (ascii ''incorrect_answers'') = Inr v" "as_list v = Some xs"
    by blast
  then show ?thesis
    by (simp add: generate_unblock_question_def generate_content_def truthy_def
          add_list_as_list case_prod_beta)
qed

lemma unblock_fallback:
  assumes none: "ai_reply env svc unblock_prompt = None"
  shows "\<exists>g''. fst (generate_unblock_question env svc g) = fst (get_local_question g'')"
proof (cases "adapter svc = None \<or> \<not> truthy (verification_model_name svc)")
  case True
  then have "fst (generate_unblock_question env svc g) = fst (get_local_question g)"
    by (simp add: generate_unblock_question_def case_prod_beta)
  then show ?thesis by blast
next
  case False
  then obtain a m where a: "adapter svc = Some a"
    and m: "verification_model_name svc = Some m" "m \<noteq> []"
    by (auto simp: truthy_def split: option.splits)
  note defs = generate_unblock_question_def generate_content_def truthy_def
    add_list_as_list case_prod_beta
  let ?keep = "fst (generate_unblock_question env svc g) = fst (get_local_question g)"
  show ?thesis
  proof (cases "adapter_generate_content env a (Some m) [TextPart unblock_prompt]")
    case (Inl e)
    with a m have ?keep by (simp add: defs)
    then show ?thesis by blast
  next
    case (Inr response_text)
    show ?thesis
    proof (cases response_text)
      case None
      with Inr a m have ?keep by (simp add: defs)
      then show ?thesis by blast
    next
      case (Some t)
      note resp = Inr [unfolded Some]
      show ?thesis
      proof (cases "t = []")
        case True
        with resp a m have ?keep by (simp add: defs)
        then show ?thesis by blast
      next
        case False
        note t = False
        show ?thesis
        proof (cases "json_loads env (strip (sub_fences t))")
          case (Inl e)
          with resp t a m have ?keep by (simp add: defs)
          then show ?thesis by blast
        next
          case (Inr data)
          note data = Inr
          show ?thesis
          proof (cases "subscript data (ascii ''correct_answer'')")
            case (Inl e)
            with data resp t a m have ?keep by (simp add: defs)
            then show ?thesis by blast
          next
            case (Inr c)
            note c = Inr
            show ?thesis
            proof (cases "subscript data (ascii ''incorrect_answers'')")
              case (Inl e)
              with c data resp t a m have ?keep by (simp add: defs)
              then show ?thesis by blast
            next
              case (Inr v)
              note v = Inr
              show ?thesis
              proof (cases "as_list v")
                case None
                with v c data resp t a m have ?keep by (simp add: defs)
                then show ?thesis by blast
              next
                case (Some xs)
                note xs = Some
                show ?thesis
                proof (cases "subscript data (ascii ''question'')")
                  case (Inl e)
                  with xs v c data resp t a m
                  have "fst (generate_unblock_question env svc g) =
                          fst (get_local_question (snd (shuffle (xs @ [c]) g)))"
                    by (simp add: defs)
                  then show ?thesis by blast
                next
                  case (Inr q)
                  with xs v c data resp t a m have "ai_reply env svc unblock_prompt = Some (q, c, xs)"
                    by (simp add: ai_reply_def)
                  with none show ?thesis by simp
                qed
              qed
            qed
          qed
        qed
      qed
    qed
  qed
qed

lemma prompts_equal: "verification_prompt = unblock_prompt"
  unfolding verification_prompt_def unblock_prompt_def by (rule refl)

lemma verification_challenge_unfold:
  "generate_verification_challenge env svc g = generate_unblock_question env svc g"
  by (simp only: generate_verification_challenge_def generate_unblock_question_def prompts_equal)

lemma unblock_challenge_ok:
  "challenge_ok env svc unblock_prompt (fst (generate_unblock_question env svc g))"
proof (cases "ai_reply env svc unblock_prompt")
  case None
  then obtain g'' where "fst (generate_unblock_question env svc g) = fst (get_local_question g'')"
    using unblock_fallback by blast
  moreover obtain r where "fst (get_local_question g'') = Inr r" "from_bank r" "options_invariant r"
    using get_local_question_invariant by blast
  ultimately show ?thesis using None by (simp add: challenge_ok_def)
next
  case (Some qcx)
  obtain q c xs where qcx: "qcx = (q, c, xs)" by (cases qcx)
  let ?r = "\<lparr>question = q, correct_answer = c, options = fst (shuffle (xs @ [c]) g)\<rparr>"
  have r: "fst (generate_unblock_question env svc g) = Inr ?r"
    using unblock_provider Some qcx by simp
  have p: "mset (options ?r) = mset (xs @ [correct_answer ?r])"
    by (simp add: mset_shuffle)
  have "options_invariant ?r \<longleftrightarrow> (length xs = 3 \<and> correct_answer ?r \<notin> set xs)"
    using p by (rule options_invariant_perm)
  then show ?thesis using Some qcx r p by (simp add: challenge_ok_def)
qed

section \<open>Question generation\<close>

text \<open>
  C9. \<open>generate_unblock_question\<close> and \<open>generate_verification_challenge\<close> are the same
  function of the configuration, the provider's behaviour and the random draws: they
  return the same result, leave the generator in the same state and send the same
  requests (the same prompt to the same model). The two bodies differ only in the text
  they print when the provider path fails, which is no part of what they return.
\<close>

theorem challenge_generators_equal:
  "generate_unblock_question env svc g = generate_verification_challenge env svc g"
  by (simp only: generate_verification_challenge_def generate_unblock_question_def prompts_equal)

lemma good_clean: "strip (sub_fences good_question_text) = good_question_text"
  by (simp add: good_question_text_def ascii_def match_here_def fence_def fence_json_def strip_def isspace_def)

lemma good_question_reply:
  "ai_reply (reply_env good_question_text good_question_text good_question_dict) ex_svc unblock_prompt =
     Some (PStr (ascii ''Q''), PStr (ascii ''A''), [PStr (ascii ''B''), PStr (ascii ''C''), PStr (ascii ''D'')])"
  by (simp add: ai_reply_def reply_env_def ex_svc_def good_clean good_question_dict_def ascii_def)
   (simp add: good_question_text_def ascii_def)


lemma bad_clean: "strip (sub_fences bad_question_text) = bad_question_text"
  by (simp add: bad_question_text_def ascii_def match_here_def fence_def fence_json_def strip_def isspace_def)

lemma bad_question_reply:
  "ai_reply (reply_env bad_question_text bad_question_text bad_question_dict) ex_svc unblock_prompt =
     Some (PStr (ascii ''Q''), PStr (ascii ''A''), [PStr (ascii ''A''), PStr (ascii ''B'')])"
  by (simp add: ai_reply_def reply_env_def ex_svc_def bad_clean bad_question_dict_def ascii_def)
   (simp add: bad_question_text_def ascii_def)

lemma shuffle_three: "shuffle [a, b, c] [] = ([b, c, a], [])"
  by (simp add: shuffle_def randbelow_def numeral_2_eq_2)


text \<open>
  C1, as the code has it. Both operations always return a question. When the provider
  path does not succeed, the question comes from the local bank (the question and the
  correct answer of one of its entries, the options a permutation of that entry's
  incorrect answers followed by its correct answer) and satisfies the option-set
  invariant. When it succeeds, the question and the correct answer are those of the
  parsed response and the options are a permutation of its incorrect answers followed by
  the correct answer; nothing checks the response, so the invariant holds exactly when
  the response carries three incorrect answers, none of them equal to the correct answer.
\<close>

theorem challenge_options:
  "challenge_ok env svc unblock_prompt (fst (generate_unblock_question env svc g)) \<and>
   challenge_ok env svc verification_prompt (fst (generate_verification_challenge env svc g))"
  using unblock_challenge_ok [of env svc g]
  by (simp only: verification_challenge_unfold prompts_equal)


text \<open>
  The theorem at a well-formed response, where the provider path succeeds and the
  returned question satisfies the invariant, and at a service without adapter, where the
  question comes from the bank.
\<close>

theorem challenge_options_witness:
  "(case fst (generate_unblock_question
                (reply_env good_question_text good_question_text good_question_dict) ex_svc []) of
      Inl e \<Rightarrow> False
    | Inr r \<Rightarrow> options_invariant r) \<and>
   (case fst (generate_verification_challenge ok_env no_svc []) of
      Inl e \<Rightarrow> False
    | Inr r \<Rightarrow> from_bank r \<and> options_invariant r)"
proof -
  have "ai_reply ok_env no_svc verification_prompt = None"
    by (simp add: ai_reply_def no_svc_def)
  then have "case fst (generate_verification_challenge ok_env no_svc []) of
      Inl e \<Rightarrow> False
    | Inr r \<Rightarrow> from_bank r \<and> options_invariant r"
    using challenge_options [of ok_env no_svc "[]"]
    by (simp add: challenge_ok_def split: sum.splits)
  moreover have "case fst (generate_unblock_question
                (reply_env good_question_text good_question_text good_question_dict) ex_svc []) of
      Inl e \<Rightarrow> False
    | Inr r \<Rightarrow> options_invariant r"
    using challenge_options
            [of "reply_env good_question_text good_question_text good_question_dict" ex_svc "[]"]
          good_question_reply
    by (simp add: challenge_ok_def ascii_def split: sum.splits)
  ultimately show ?thesis by simp
qed

text \<open>
  C1 as stated fails on the provider path. The provider answers with a JSON object that
  has two incorrect answers, one of them equal to the correct answer; the returned
  question has three options and holds the correct answer twice.
\<close>

theorem challenge_options_counterexample:
  "fst (generate_unblock_question
          (reply_env bad_question_text bad_question_text bad_question_dict) ex_svc []) =
     Inr \<lparr>question = PStr (ascii ''Q''), correct_answer = PStr (ascii ''A''),
          options = [PStr (ascii ''B''), PStr (ascii ''A''), PStr (ascii ''A'')]\<rparr> \<and>
   \<not> options_invariant
       \<lparr>question = PStr (ascii ''Q''), correct_answer = PStr (ascii ''A''),
        options = [PStr (ascii ''B''), PStr (ascii ''A''), PStr (ascii ''A'')]\<rparr>"
  using unblock_provider [OF bad_question_reply, of "[]"]
  by (simp add: shuffle_three options_invariant_def)

section \<open>Relaying messages\<close>

text \<open>
  C7. \<open>send_message_by_type\<close> is the relay of the specification: the kinds are checked
  in the order text, photo, animation, video, document, audio, voice, video note,
  sticker, and the first populated one decides the send; a photo goes out by the last
  entry of its size list with caption and caption entities, a video note and a sticker
  by their file reference without a caption; with no kind populated nothing is sent and
  the result is \<open>None\<close>.
\<close>

theorem relay_dispatch:
  "send_message_by_type m chat thread suppress = relay m chat thread suppress"
  by (simp add: send_message_by_type_def relay_def kind_order_def)

text \<open>The theorem at a photo in two sizes, and at a message with nothing populated.\<close>

theorem relay_dispatch_witness:
  "send_message_by_type photo_message 5 (Some 9) False =
     Some (SendPhoto 5 (ascii ''large'') (Some (ascii ''see''))
             [MessageEntity (ascii ''italic'') 0 3] (Some 9)) \<and>
   send_message_by_type empty_message 5 (Some 9) False = None"
  using relay_dispatch [of photo_message 5 "Some 9" False]
        relay_dispatch [of empty_message 5 "Some 9" False]
  by (simp add: relay_def kind_order_def photo_message_def empty_message_def truthy_def)

lemma send_reply_to_user_relay:
  "send_reply_to_user m uid = (case relay m uid None True of None \<Rightarrow> [] | Some c \<Rightarrow> [c])"
  by (simp add: send_reply_to_user_def relay_def kind_order_def)

text \<open>
  C3, as the code has it. For a staff message posted in a topic that is bound to a user,
  the admin reply relay makes the send of the relay contract to that user's chat, with
  no destination topic and with link-preview suppression switched on: the text branch
  passes \<open>disable_web_page_preview=True\<close>. The other kinds have no such flag. Text and
  entities, or caption and caption entities, go out as they came in; a message with none
  of the nine kinds populated is not relayed.
\<close>

theorem admin_reply_relay:
  assumes "upd_message upd = Some m" and "is_topic_message m"
    and "get_user_by_thread_id database (message_thread_id m) = Some u"
  shows "handle_admin_reply database upd =
           (case relay m (user_id u) None True of None \<Rightarrow> [] | Some c \<Rightarrow> [c])"
  using assms by (simp add: handle_admin_reply_def send_reply_to_user_relay)

text \<open>The theorem at a photo posted in topic 42, which is bound to user 777.\<close>

theorem admin_reply_relay_witness:
  "handle_admin_reply (ex_db 12) (ex_update photo_message) =
     [SendPhoto 777 (ascii ''large'') (Some (ascii ''see''))
        [MessageEntity (ascii ''italic'') 0 3] None]"
  using admin_reply_relay
          [of "ex_update photo_message" photo_message "ex_db 12" "\<lparr>user_id = 777\<rparr>"]
  by (simp add: ex_update_def ex_db_def photo_message_def empty_message_def relay_def
        kind_order_def truthy_def)

text \<open>
  C3 as stated fails for a text message: the send carries the link-preview flag set,
  where the relay contract with its default (no suppression) would carry it cleared.
\<close>

theorem admin_reply_counterexample:
  "handle_admin_reply (ex_db 12) (ex_update text_message) =
     [SendMessage 777 solved_text [MessageEntity (ascii ''bold'') 0 2] None (Some True)] \<and>
   handle_admin_reply (ex_db 12) (ex_update text_message) \<noteq>
     (case send_message_by_type text_message 777 None False of None \<Rightarrow> [] | Some c \<Rightarrow> [c])"
  by (simp add: handle_admin_reply_def send_reply_to_user_def send_message_by_type_def
        ex_update_def ex_db_def text_message_def empty_message_def truthy_def solved_text_def)

section \<open>The filtered-message browser\<close>

lemma total_pages_ceiling:
  "(n + 5 - 1) div 5 = \<lceil>real_of_int n / 5\<rceil>" for n :: int
proof -
  have "\<lceil>real_of_int n / 5\<rceil> = - \<lfloor>real_of_int (- n) / real_of_int 5\<rfloor>"
    by (simp add: ceiling_def)
  also have "\<dots> = - ((- n) div 5)"
    by (simp only: floor_divide_of_int_eq)
  also have "\<dots> = (n + 5 - 1) div 5" by presburger
  finally show ?thesis by simp
qed

lemma keyboard_many_pages:
  assumes "1 < total_pages"
  shows "\<exists>row. get_filtered_messages_keyboard page total_pages = Some [row] \<and>
           row = (if 1 < page then [previous_button page] else []) @
                 (if page < total_pages then [next_button page] else [])"
  using assms
  by (auto simp: get_filtered_messages_keyboard_def previous_button_def next_button_def Let_def)

lemma str_int_2: "str_int 2 = ascii ''2''"
  by (simp add: str_int_def ascii_def)

text \<open>
  C8. For an admin, a positive count of filtered messages and a first page that is not
  empty, \<open>view_filtered\<close> sends one reply: the first page, rendered with a page total
  of the ceiling of the count over five, with no keyboard when that total is at most
  one and otherwise with a keyboard of one row holding the next-page button, whose
  payload is \<open>filtered_page_2\<close>. For any page, the keyboard of more than one page is a
  single row that holds the previous-page button exactly when the page is above one
  and the next-page button exactly when the page is below the total, with payloads
  \<open>filtered_page_\<close> followed by the target page; with at most one page there is no
  keyboard.
\<close>

theorem filtered_pagination:
  "(is_admin database (effective_user_id upd) \<and> 0 < get_filtered_messages_count database \<and>
    get_filtered_messages database 5 0 \<noteq> [] \<longrightarrow>
      view_filtered database upd =
        [ReplyText
           (format_filtered_messages (get_filtered_messages database 5 0) 1
              \<lceil>real_of_int (get_filtered_messages_count database) / 5\<rceil>)
           (if \<lceil>real_of_int (get_filtered_messages_count database) / 5\<rceil> \<le> 1 then None
            else Some [[InlineKeyboardButton (label (next_button 1)) (ascii ''filtered_page_2'')]])]) \<and>
   (1 < total_pages \<longrightarrow>
      (\<exists>row. get_filtered_messages_keyboard page total_pages = Some [row] \<and>
         (previous_button page \<in> set row \<longleftrightarrow> 1 < page) \<and>
         (next_button page \<in> set row \<longleftrightarrow> page < total_pages) \<and>
         set row \<subseteq> {previous_button page, next_button page})) \<and>
   (total_pages \<le> 1 \<longrightarrow> get_filtered_messages_keyboard page total_pages = None)"
proof (intro conjI impI)
  assume a: "is_admin database (effective_user_id upd) \<and> 0 < get_filtered_messages_count database \<and>
    get_filtered_messages database 5 0 \<noteq> []"
  let ?n = "get_filtered_messages_count database"
  let ?tp = "\<lceil>real_of_int ?n / 5\<rceil>"
  have tp: "(?n + 5 - 1) div 5 = ?tp" by (rule total_pages_ceiling)
  have kb: "get_filtered_messages_keyboard 1 ?tp =
      (if ?tp \<le> 1 then None
       else Some [[InlineKeyboardButton (label (next_button 1)) (ascii ''filtered_page_2'')]])"
    by (simp add: get_filtered_messages_keyboard_def next_button_def str_int_2 ascii_def)
  show "view_filtered database upd =
        [ReplyText (format_filtered_messages (get_filtered_messages database 5 0) 1 ?tp)
           (if ?tp \<le> 1 then None
            else Some [[InlineKeyboardButton (label (next_button 1)) (ascii ''filtered_page_2'')]])]"
    using a unfolding view_filtered_def Let_def tp kb
    by (simp split: option.splits)
next
  assume "1 < total_pages"
  from keyboard_many_pages [OF this, of page]
  show "\<exists>row. get_filtered_messages_keyboard page total_pages = Some [row] \<and>
         (previous_button page \<in> set row \<longleftrightarrow> 1 < page) \<and>
         (next_button page \<in> set row \<longleftrightarrow> page < total_pages) \<and>
         set row \<subseteq> {previous_button page, next_button page}"
    by (auto simp: previous_button_def next_button_def)
next
  assume "total_pages \<le> 1"
  then show "get_filtered_messages_keyboard page total_pages = None"
    by (simp add: get_filtered_messages_keyboard_def)
qed


text \<open>
  The theorem at twelve filtered messages (three pages), and at the keyboards of page 2
  of 3, page 3 of 3 and page 1 of 1.
\<close>

lemma ceiling_12_5: "\<lceil>real_of_int 12 / 5\<rceil> = 3"
  by (simp add: ceiling_eq_iff)

theorem filtered_pagination_witness:
  "view_filtered (ex_db 12) (ex_update text_message) =
     [ReplyText (format_filtered_messages [ex_row] 1 3)
        (Some [[InlineKeyboardButton (label (next_button 1)) (ascii ''filtered_page_2'')]])] \<and>
   previous_button 2 \<in> set (concat (the (get_filtered_messages_keyboard 2 3))) \<and>
   next_button 2 \<in> set (concat (the (get_filtered_messages_keyboard 2 3))) \<and>
   next_button 3 \<notin> set (concat (the (get_filtered_messages_keyboard 3 3))) \<and>
   get_filtered_messages_keyboard 1 1 = None"
proof -
  have "view_filtered (ex_db 12) (ex_update text_message) =
     [ReplyText (format_filtered_messages [ex_row] 1 3)
        (Some [[InlineKeyboardButton (label (next_button 1)) (ascii ''filtered_page_2'')]])]"
    using filtered_pagination [of "ex_db 12" "ex_update text_message" 3 2] ceiling_12_5
    by (simp add: ex_db_def ex_update_def)
  moreover have "previous_button 2 \<in> set (concat (the (get_filtered_messages_keyboard 2 3))) \<and>
      next_button 2 \<in> set (concat (the (get_filtered_messages_keyboard 2 3)))"
    using filtered_pagination [of "ex_db 12" "ex_update text_message" 3 2] by auto
  moreover have "next_button 3 \<notin> set (concat (the (get_filtered_messages_keyboard 3 3)))"
    using filtered_pagination [of "ex_db 12" "ex_update text_message" 3 3] by auto
  moreover have "get_filtered_messages_keyboard 1 1 = None"
    using filtered_pagination [of "ex_db 12" "ex_update text_message" 1 1] by simp
  ultimately show ?thesis by simp
qed

section \<open>Initialising the model service\<close>

text \<open>
  Where \<open>initialize\<close> raises and leaves the service as it was: an unsupported provider
  key, and the provider \<open>custom\<close> without a base URL. The last lemma lists every way a
  raise can leave the service: unchanged, or, for \<open>custom\<close> with a base URL and without a
  filter model, with all three fields overwritten.
\<close>

lemma initialize_unsupported_provider:
  assumes "lower provider \<notin> {ascii ''gemini'', ascii ''openai'', ascii ''claude'', ascii ''custom''}"
  shows "initialize env self provider key url fm vm = (Inl ValueError, self)"
  using assms by (simp add: initialize_def Let_def)

lemma initialize_custom_without_base_url:
  assumes "lower provider = ascii ''custom''" and "\<not> truthy url"
  shows "initialize env self provider key url fm vm = (Inl ValueError, self)"
  using assms by (simp add: initialize_def Let_def ascii_def)

lemma initialize_raise_frame:
  assumes "fst (initialize env self provider key url fm vm) = Inl e"
  shows "snd (initialize env self provider key url fm vm) = self \<or>
         (lower provider = ascii ''custom'' \<and> truthy url \<and> \<not> truthy fm \<and>
          snd (initialize env self provider key url fm vm) =
            self\<lparr>adapter := Some (CustomAPIAdapter key url), filter_model_name := fm,
                 verification_model_name := py_or vm fm\<rparr>)"
  using assms
  by (auto simp: initialize_def Let_def new_CustomAPIAdapter_def split: if_splits sum.splits option.splits)

text \<open>
  C2 fails on the code. \<open>initialize\<close> checks the filter model of the provider
  \<open>custom\<close> after the three assignments, where it checks the base URL before them. On a
  service configured for Gemini, the call with provider \<open>custom\<close>, a base URL and no
  filter model raises and leaves the adapter replaced and both model names cleared.
\<close>

theorem initialize_custom_without_filter_model:
  "initialize ok_env ex_svc (ascii ''custom'') (ascii ''key'') (Some (ascii ''http://h/v1'')) None None =
     (Inl ValueError,
      \<lparr>adapter = Some (CustomAPIAdapter (ascii ''key'') (Some (ascii ''http://h/v1''))),
       filter_model_name = None, verification_model_name = None\<rparr>) \<and>
   snd (initialize ok_env ex_svc (ascii ''custom'') (ascii ''key'') (Some (ascii ''http://h/v1'')) None None)
     \<noteq> ex_svc"
  by (simp add: initialize_def lower_def ascii_def new_CustomAPIAdapter_def truthy_def py_or_def
        ok_env_def reply_env_def ex_svc_def Let_def)

section \<open>The auto-reply\<close>

lemma suppressed_contains:
  "suppressed t \<longleftrightarrow> contains t marker_cannot_answer \<or> contains t marker_sorry"
  by (simp add: suppressed_def contains_iff)

text \<open>
  C5. \<open>generate_autoreply\<close> returns what the auto-reply contract says: absent when the
  service has no adapter or no filter model, or the knowledge base is absent or all
  whitespace, and then without any request; absent when the provider call fails or
  returns no text; absent when the response holds one of the two markers anywhere;
  and in every remaining case the response with its surrounding whitespace removed,
  which is a string and so not absent. Past the first two conditions exactly one request
  is sent.
\<close>

theorem autoreply_absent_exactly:
  "fst (generate_autoreply env svc user_message kb) = autoreply_spec env svc user_message kb \<and>
   (if not_configured svc \<or> blank kb then snd (generate_autoreply env svc user_message kb) = []
    else length (snd (generate_autoreply env svc user_message kb)) = 1)"
proof (cases "not_configured svc \<or> blank kb")
  case True
  then show ?thesis
    by (auto simp: generate_autoreply_def autoreply_spec_def not_configured_def blank_def truthy_def
          strip_empty_iff split: option.splits)
next
  case False
  then obtain a m k where f: "adapter svc = Some a" "filter_model_name svc = Some m" "m \<noteq> []"
    "kb = Some k" "k \<noteq> []" "strip k \<noteq> []"
  proof -
    from False obtain k where k: "kb = Some k" "\<not> list_all isspace k"
      by (cases kb) (auto simp: blank_def)
    from k have "k \<noteq> []" by auto
    moreover from k have "strip k \<noteq> []" by (simp add: strip_empty_iff)
    moreover from False obtain a m where "adapter svc = Some a" "filter_model_name svc = Some m" "m \<noteq> []"
      by (auto simp: not_configured_def)
    ultimately show ?thesis using that k by blast
  qed
  have b: "\<not> (not_configured svc \<or> blank kb)" by (rule False)
  show ?thesis
    unfolding autoreply_spec_def generate_autoreply_def generate_content_def provider_text_def
      suppressed_def contains_iff [symmetric]
    using f b
    by (auto simp: truthy_def split: sum.splits option.splits)
qed

text \<open>
  The theorem at an answer that holds an apology (absent), at an answer with whitespace
  around it (returned trimmed), and at a knowledge base of three spaces (absent, no
  request).
\<close>

theorem autoreply_absent_exactly_witness:
  "fst (generate_autoreply (reply_env apologetic_reply [] PNone) ex_svc (ascii ''how'') (Some (ascii ''FAQ''))) = None \<and>
   fst (generate_autoreply (reply_env padded_reply [] PNone) ex_svc (ascii ''how'') (Some (ascii ''FAQ''))) = Some trimmed_reply \<and>
   generate_autoreply (reply_env padded_reply [] PNone) ex_svc (ascii ''how'') (Some (ascii ''   ''))
     = (None, [])"
proof -
  have nc: "\<not> not_configured ex_svc"
    by (simp add: not_configured_def ex_svc_def ascii_def)
  have nb: "\<not> blank (Some (ascii ''FAQ''))"
    by (simp add: blank_def ascii_def isspace_def)
  have b: "blank (Some (ascii ''   ''))"
    by (simp add: blank_def ascii_def isspace_def)
  have s1: "suppressed apologetic_reply"
    by (simp add: suppressed_contains apologetic_reply_def marker_sorry_def)
  have s2: "\<not> suppressed padded_reply"
    by (simp add: suppressed_contains padded_reply_def marker_sorry_def
          marker_cannot_answer_def ascii_def)
  have st: "strip padded_reply = trimmed_reply"
    by (simp add: strip_def padded_reply_def trimmed_reply_def ascii_def isspace_def)
  have "fst (generate_autoreply (reply_env apologetic_reply [] PNone) ex_svc (ascii ''how'') (Some (ascii ''FAQ''))) = None"
    using autoreply_absent_exactly [of "reply_env apologetic_reply [] PNone" ex_svc "ascii ''how''" "Some (ascii ''FAQ'')"]
      nc nb s1
    by (simp add: autoreply_spec_def provider_text_def reply_env_def ex_svc_def apologetic_reply_def)
  moreover have "fst (generate_autoreply (reply_env padded_reply [] PNone) ex_svc (ascii ''how'') (Some (ascii ''FAQ''))) = Some trimmed_reply"
    using autoreply_absent_exactly [of "reply_env padded_reply [] PNone" ex_svc "ascii ''how''" "Some (ascii ''FAQ'')"]
      nc nb s2 st
    by (simp add: autoreply_spec_def provider_text_def reply_env_def ex_svc_def padded_reply_def ascii_def)
  moreover have "generate_autoreply (reply_env padded_reply [] PNone) ex_svc (ascii ''how'') (Some (ascii ''   ''))
     = (None, [])"
    using autoreply_absent_exactly [of "reply_env padded_reply [] PNone" ex_svc "ascii ''how''" "Some (ascii ''   '')"]
      b
    by (simp add: autoreply_spec_def prod_eq_iff)
  ultimately show ?thesis by simp
qed

section \<open>Content analysis\<close>

text \<open>
  \<open>analyze_message\<close> past its first short circuit, in terms of the content parts of the
  request, and the requests it sends.
\<close>

lemma analyze_message_parts:
  assumes "adapter svc = Some a" and "truthy (filter_model_name svc)" and "enable_ai_filter"
  shows "analyze_message env svc enable_ai_filter m image_bytes =
     (if analysis_parts env m image_bytes = []
      then (verdict False (ascii ''No content to analyze''), [])
      else
        (case adapter_generate_content env a (filter_model_name svc)
                (analysis_parts env m image_bytes @ [TextPart (join [0xA] analyze_prompt_parts)]) of
           Inl e \<Rightarrow> verdict False (ascii ''Analysis failed'')
         | Inr None \<Rightarrow> verdict False (ascii ''Analysis failed'')
         | Inr (Some t) \<Rightarrow>
             if t = [] then verdict False (ascii ''Analysis failed'')
             else
               (case json_loads env (strip (sub_fences t)) of
                  Inr result \<Rightarrow> result
                | Inl e \<Rightarrow>
                    if e = JSONDecodeError
                    then verdict False (ascii ''Analysis failed - JSON parse error'')
                    else verdict False (ascii ''Analysis failed'')),
         [(a, filter_model_name svc,
           analysis_parts env m image_bytes @ [TextPart (join [0xA] analyze_prompt_parts)])]))"
proof -
  let ?c0 = "case msg_text m of None \<Rightarrow> [] | Some t \<Rightarrow> if t \<noteq> [] then [TextPart t] else []"
  let ?c1 = "case image_bytes of
               None \<Rightarrow> ?c0
             | Some b \<Rightarrow>
                 if b \<noteq> [] then
                   (case image_open env b of
                      Some img \<Rightarrow> ?c0 @ [ImagePart img]
                    | None \<Rightarrow> ?c0)
                 else ?c0"
  have p: "?c1 = analysis_parts env m image_bytes"
    by (simp add: analysis_parts_def truthy_def split: option.splits)
  show ?thesis
    unfolding analyze_message_def Let_def p generate_content_def
    using assms
    by (simp split: sum.splits option.splits)
qed

lemma analyze_request_sent:
  "snd (analyze_message env svc enable_ai_filter m image_bytes) =
     (if adapter svc = None \<or> \<not> truthy (filter_model_name svc) \<or> \<not> enable_ai_filter \<or>
         analysis_parts env m image_bytes = []
      then []
      else [(the (adapter svc), filter_model_name svc,
             analysis_parts env m image_bytes @ [TextPart (join [0xA] analyze_prompt_parts)])])"
proof (cases "adapter svc = None \<or> \<not> truthy (filter_model_name svc) \<or> \<not> enable_ai_filter")
  case True
  then show ?thesis by (auto simp: analyze_message_def)
next
  case False
  then obtain a where "adapter svc = Some a" "truthy (filter_model_name svc)" "enable_ai_filter"
    by auto
  then show ?thesis by (simp add: analyze_message_parts)
qed

lemma fenced_verdict_clean: "strip (sub_fences fenced_verdict) = verdict_text"
  by (simp add: fenced_verdict_def verdict_text_def ascii_def match_here_def fence_def
        fence_json_def strip_def isspace_def)

text \<open>
  C4, as the code has it. \<open>analyze_message\<close> fails open on its two short circuits. With
  no adapter, no filter model or the feature switched off, it returns the verdict
  "AI filter disabled" (not spam) and sends no request, whatever the message holds.
  Otherwise, when the message has no text and the image bytes are absent, empty or
  refused by \<open>Image.open\<close> (it raises), it returns the verdict "No content to analyze"
  (not spam) and sends no request.
\<close>

theorem analyze_short_circuits:
  "(adapter svc = None \<or> \<not> truthy (filter_model_name svc) \<or> \<not> enable_ai_filter \<longrightarrow>
      analyze_message env svc enable_ai_filter m image_bytes =
        (verdict False (ascii ''AI filter disabled''), [])) \<and>
   (adapter svc \<noteq> None \<and> truthy (filter_model_name svc) \<and> enable_ai_filter \<and>
    \<not> truthy (msg_text m) \<and>
    (case image_bytes of None \<Rightarrow> True | Some b \<Rightarrow> b = [] \<or> image_open env b = None) \<longrightarrow>
      analyze_message env svc enable_ai_filter m image_bytes =
        (verdict False (ascii ''No content to analyze''), []))"
  by (auto simp: analyze_message_def truthy_def split: option.splits)

text \<open>
  The theorem at an insult with no adapter, at the same message with the feature switched
  off, and at a message without text whose image bytes do not decode.
\<close>

theorem analyze_short_circuits_witness:
  "analyze_message ok_env no_svc True abusive_message None =
     (verdict False (ascii ''AI filter disabled''), []) \<and>
   analyze_message ok_env ex_svc False abusive_message None =
     (verdict False (ascii ''AI filter disabled''), []) \<and>
   analyze_message ok_env ex_svc True empty_message (Some [0x89, 0x50]) =
     (verdict False (ascii ''No content to analyze''), [])"
proof -
  have "analyze_message ok_env no_svc True abusive_message None =
     (verdict False (ascii ''AI filter disabled''), [])"
    using analyze_short_circuits [of no_svc True ok_env abusive_message None]
    by (simp add: no_svc_def)
  moreover have "analyze_message ok_env ex_svc False abusive_message None =
     (verdict False (ascii ''AI filter disabled''), [])"
    using analyze_short_circuits [of ex_svc False ok_env abusive_message None]
    by simp
  moreover have "analyze_message ok_env ex_svc True empty_message (Some [0x89, 0x50]) =
     (verdict False (ascii ''No content to analyze''), [])"
    using analyze_short_circuits [of ex_svc True ok_env empty_message "Some [0x89, 0x50]"]
    by (simp add: ex_svc_def truthy_def ascii_def empty_message_def ok_env_def reply_env_def)
  ultimately show ?thesis by simp
qed

text \<open>
  C4 as stated fails for image bytes that open and do not decode. \<open>Image.open\<close> reads
  the header only, so it accepts a PNG file that is cut off in its pixel data; the image
  is sent to the provider, and the verdict returned is the provider's, here spam.
\<close>

theorem analyze_short_circuits_counterexample:
  "\<not> truthy (msg_text empty_message) \<and>
   \<not> image_decodes (opening_env fenced_verdict verdict_text (verdict True insult))
       (Image truncated_png) \<and>
   analyze_message (opening_env fenced_verdict verdict_text (verdict True insult)) ex_svc True
       empty_message (Some truncated_png) =
     (verdict True insult,
      [(GeminiAdapter (ascii ''key'') None, Some (ascii ''gemini-2.5-flash''),
        [ImagePart (Image truncated_png), TextPart (join [0xA] analyze_prompt_parts)])])"
proof -
  have "fenced_verdict \<noteq> []" by (simp add: fenced_verdict_def)
  moreover have "truncated_png \<noteq> []" by (simp add: truncated_png_def)
  ultimately show ?thesis
    by (simp add: analyze_message_def generate_content_def opening_env_def reply_env_def
          ex_svc_def truthy_def empty_message_def fenced_verdict_clean ascii_def)
qed

section \<open>Stripping code fences from a response\<close>

text \<open>
  Where the scan keeps its input: through a stretch of text that holds no three
  backticks in a row and ends in a character that is neither whitespace nor a backtick,
  no alternative of the pattern matches, so the stretch is copied unchanged.
\<close>

lemma prefix_fence_skip:
  assumes "prefix fence (v @ x # rest)" and "x \<noteq> 0x60"
  shows "prefix fence v"
proof (cases v)
  case Nil
  with assms show ?thesis by (simp add: fence_def)
next
  case v1: (Cons a v1)
  show ?thesis
  proof (cases v1)
    case Nil
    with v1 assms show ?thesis by (simp add: fence_def)
  next
    case v2: (Cons b v2)
    show ?thesis
    proof (cases v2)
      case Nil
      with v1 v2 assms show ?thesis by (simp add: fence_def)
    next
      case (Cons c v3)
      with v1 v2 assms show ?thesis by (simp add: fence_def)
    qed
  qed
qed

lemma contains_prefix: "prefix sub s \<Longrightarrow> contains s sub"
  by (cases s) simp_all

lemma contains_extend: "contains v sub \<Longrightarrow> contains (w @ v @ z) sub"
proof -
  assume "contains v sub"
  then obtain before after where "v = before @ sub @ after" using contains_iff by blast
  then have "w @ v @ z = (w @ before) @ sub @ (after @ z)" by simp
  then show ?thesis using contains_iff by blast
qed

lemma dropWhile_before_solid:
  "\<not> isspace x \<Longrightarrow> dropWhile isspace (u @ x # rest) = dropWhile isspace u @ x # rest"
  by (simp add: dropWhile_append dropWhile_eq_Nil_conv [THEN iffD2])

lemma match_here_inside:
  assumes nf: "\<not> contains (u @ [x]) fence" and x: "\<not> isspace x" "x \<noteq> 0x60"
  shows "match_here (u @ x # rest) = None"
proof -
  have no: "\<not> prefix fence (v @ x # rest)" if "u = w @ v" for w v
  proof
    assume "prefix fence (v @ x # rest)"
    then have "prefix fence v" using x(2) by (rule prefix_fence_skip)
    then have "contains v fence" by (rule contains_prefix)
    then have "contains (w @ v @ [x]) fence" by (rule contains_extend)
    with nf that show False by simp
  qed
  have 1: "\<not> prefix fence_json (u @ x # rest)"
  proof
    assume "prefix fence_json (u @ x # rest)"
    then have "prefix fence (u @ x # rest)"
      unfolding fence_json_def by (rule append_prefixD)
    with no [of "[]" u] show False by simp
  qed
  have "u = takeWhile isspace u @ dropWhile isspace u" by simp
  then have 2: "\<not> prefix fence (dropWhile isspace u @ x # rest)" by (rule no)
  show ?thesis
    using 1 2 x(1) by (simp add: match_here_def dropWhile_before_solid)
qed

lemma sub_fences_keep:
  assumes "\<not> contains (u @ [x]) fence" and "\<not> isspace x" and "x \<noteq> 0x60"
  shows "sub_fences (u @ x # rest) = u @ x # sub_fences rest"
  using assms
proof (induction u)
  case Nil
  then have "match_here ([] @ x # rest) = None" by (rule match_here_inside)
  then show ?case by simp
next
  case (Cons c u)
  have "match_here ((c # u) @ x # rest) = None"
    using Cons.prems by (rule match_here_inside)
  moreover have "\<not> contains (u @ [x]) fence" using Cons.prems(1) by simp
  ultimately show ?case using Cons by simp
qed

lemma sub_fences_closing:
  assumes "list_all isspace ws"
  shows "sub_fences (ws @ fence) = []"
proof -
  obtain c cs where s: "ws @ fence = c # cs" by (cases "ws @ fence") (simp_all add: fence_def)
  have nb: "\<not> isspace 0x60" by (simp add: isspace_def)
  have "\<not> prefix fence_json (ws @ fence)"
  proof (cases ws)
    case Nil
    then show ?thesis by (simp add: fence_json_def fence_def ascii_def)
  next
    case (Cons w ws')
    with assms nb have "w \<noteq> 0x60" by auto
    with Cons show ?thesis by (simp add: fence_json_def fence_def)
  qed
  moreover have "dropWhile isspace (ws @ fence) = fence"
    using assms nb by (simp add: dropWhile_append list_all_iff fence_def)
  ultimately have "match_here (ws @ fence) = Some []"
    by (simp add: match_here_def)
  then show ?thesis unfolding s by simp
qed

lemma strip_solid:
  assumes "list_all isspace ws" and "\<not> isspace a" and "\<not> isspace z"
  shows "strip (ws @ a # mid @ [z]) = a # mid @ [z]"
  using assms by (simp add: strip_def dropWhile_append list_all_iff)

lemma contains_fence_skip_spaces:
  "list_all isspace ws \<Longrightarrow> contains (ws @ s) fence = contains s fence"
proof (induction ws)
  case Nil
  then show ?case by simp
next
  case (Cons w ws)
  have "\<not> isspace 0x60" by (simp add: isspace_def)
  with Cons.prems have "w \<noteq> 0x60" by auto
  then have "\<not> prefix fence (w # ws @ s)" by (simp add: fence_def)
  with Cons show ?case by simp
qed

lemma sub_fences_opening_json:
  assumes "list_all isspace ws" and "\<not> isspace a"
  shows "sub_fences (fence_json @ ws @ a # rest) = sub_fences (a # rest)"
proof -
  obtain c cs where s: "fence_json @ ws @ a # rest = c # cs"
    by (cases "fence_json @ ws @ a # rest") simp_all
  have "match_here (fence_json @ ws @ a # rest) = Some (a # rest)"
    using assms by (simp add: match_here_def dropWhile_append list_all_iff)
  then show ?thesis unfolding s by simp
qed

lemma sub_fences_opening_plain:
  assumes "list_all isspace ws" and "a = 0x7B"
  shows "sub_fences (fence @ ws @ a # rest) = sub_fences (ws @ a # rest)"
proof -
  obtain c cs where s: "fence @ ws @ a # rest = c # cs"
    by (cases "fence @ ws @ a # rest") simp_all
  have j: "\<not> isspace 0x6A" by (simp add: isspace_def)
  have "\<not> prefix (ascii ''json'') (ws @ a # rest)"
  proof (cases ws)
    case Nil
    with assms show ?thesis by (simp add: ascii_def)
  next
    case (Cons w ws')
    with assms j have "w \<noteq> 0x6A" by auto
    with Cons show ?thesis by (simp add: ascii_def)
  qed
  then have "\<not> prefix fence_json (fence @ ws @ a # rest)"
    by (simp add: fence_json_def)
  moreover have "dropWhile isspace (fence @ ws @ a # rest) = fence @ ws @ a # rest"
    by (simp add: fence_def isspace_def)
  ultimately have "match_here (fence @ ws @ a # rest) = Some (ws @ a # rest)"
    by (simp add: match_here_def)
  then show ?thesis unfolding s by simp
qed

lemma clean_fenced:
  assumes lead: "lead = fence_json \<or> lead = fence"
    and ws: "list_all isspace ws1" "list_all isspace ws2"
    and body: "body = 0x7B # mid @ [0x7D]"
    and nf: "\<not> contains body fence"
  shows "strip (sub_fences (lead @ ws1 @ body @ ws2 @ fence)) = body"
proof -
  have sp: "\<not> isspace 0x7B" "\<not> isspace 0x7D" "(0x7D::nat) \<noteq> 0x60"
    by (simp_all add: isspace_def)
  have inner: "sub_fences ((ws @ 0x7B # mid) @ 0x7D # ws2 @ fence) = (ws @ 0x7B # mid) @ [0x7D]"
    if "list_all isspace ws" for ws
  proof -
    have "\<not> contains (ws @ body) fence"
      using that nf by (simp add: contains_fence_skip_spaces)
    then have "\<not> contains ((ws @ 0x7B # mid) @ [0x7D]) fence"
      using body by simp
    then have "sub_fences ((ws @ 0x7B # mid) @ 0x7D # ws2 @ fence) =
        (ws @ 0x7B # mid) @ 0x7D # sub_fences (ws2 @ fence)"
      using sp(2,3) by (rule sub_fences_keep)
    then show ?thesis using ws(2) by (simp add: sub_fences_closing)
  qed
  from lead show ?thesis
  proof
    assume o: "lead = fence_json"
    have "sub_fences (lead @ ws1 @ body @ ws2 @ fence) =
        sub_fences (0x7B # mid @ 0x7D # ws2 @ fence)"
      using sub_fences_opening_json [OF ws(1) sp(1), of "mid @ 0x7D # ws2 @ fence"] o body
      by simp
    also have "\<dots> = body" using inner [of "[]"] body by simp
    finally show ?thesis
      using strip_solid [of "[]" "0x7B" "0x7D" mid] sp body by simp
  next
    assume o: "lead = fence"
    have "sub_fences (lead @ ws1 @ body @ ws2 @ fence) =
        sub_fences (ws1 @ 0x7B # mid @ 0x7D # ws2 @ fence)"
      using sub_fences_opening_plain [OF ws(1) refl, of "mid @ 0x7D # ws2 @ fence"] o body
      by simp
    also have "\<dots> = ws1 @ body" using inner [OF ws(1)] body by simp
    finally show ?thesis
      using strip_solid [OF ws(1) sp(1,2), of mid] body by simp
  qed
qed

text \<open>
  C6, as the code has it. The substitution deletes every match of the pattern, not only
  the fences around the response. Whenever \<open>analyze_message\<close> sends a request and the
  provider answers it with an opening fence (with or without \<open>json\<close>), whitespace, a
  JSON object, whitespace and a closing fence, where the text of the object holds no
  three backticks in a row, the stripped text is the text of the object, and
  \<open>analyze_message\<close> returns what \<open>json.loads\<close> makes of it.
\<close>

theorem fenced_verdict_parsed:
  assumes sent: "snd (analyze_message env svc enable_ai_filter m image_bytes) = [(a, model, contents)]"
    and answer: "adapter_generate_content env a model contents =
           Inr (Some (lead @ ws1 @ body @ ws2 @ fence))"
    and "lead = fence_json \<or> lead = fence"
    and "list_all isspace ws1" and "list_all isspace ws2"
    and "body = 0x7B # mid @ [0x7D]"
    and "\<not> contains body fence"
    and "json_loads env body = Inr obj"
  shows "fst (analyze_message env svc enable_ai_filter m image_bytes) = obj"
proof -
  define resp where "resp = lead @ ws1 @ body @ ws2 @ fence"
  have c: "strip (sub_fences resp) = body"
    unfolding resp_def using assms(3-7) by (rule clean_fenced)
  have ne: "resp \<noteq> []" by (simp add: resp_def fence_def)
  let ?parts = "analysis_parts env m image_bytes"
  let ?request = "?parts @ [TextPart (join [0xA] analyze_prompt_parts)]"
  from sent have cfg: "adapter svc \<noteq> None" "truthy (filter_model_name svc)" "enable_ai_filter"
    "?parts \<noteq> []"
    and call: "(a, model, contents) = (the (adapter svc), filter_model_name svc, ?request)"
    unfolding analyze_request_sent by (auto split: if_splits)
  from cfg(1) call have a: "adapter svc = Some a" by auto
  have "adapter_generate_content env a (filter_model_name svc) ?request = Inr (Some resp)"
    using answer call unfolding resp_def by simp
  then show ?thesis
    using analyze_message_parts [OF a cfg(2,3), of env m image_bytes] cfg(4) c ne assms(8)
    by simp
qed

text \<open>
  The theorem at the fenced verdict of the specification, as the answer to a request
  made for a text message and to a request made for an image without text.
\<close>

theorem fenced_verdict_parsed_witness:
  "fst (analyze_message (reply_env fenced_verdict verdict_text (verdict True insult)) ex_svc True
          abusive_message None) = verdict True insult \<and>
   fst (analyze_message (opening_env fenced_verdict verdict_text (verdict True insult)) ex_svc True
          empty_message (Some truncated_png)) = verdict True insult"
proof -
  let ?mid = "drop 1 (butlast verdict_text)"
  let ?a = "GeminiAdapter (ascii ''key'') None"
  let ?model = "Some (ascii ''gemini-2.5-flash'')"
  let ?prompt = "TextPart (join [0xA] analyze_prompt_parts)"
  let ?E1 = "reply_env fenced_verdict verdict_text (verdict True insult)"
  let ?E2 = "opening_env fenced_verdict verdict_text (verdict True insult)"
  have b: "verdict_text = 0x7B # ?mid @ [0x7D]"
    by (simp add: verdict_text_def ascii_def)
  have r: "fenced_verdict = fence_json @ [0xA] @ verdict_text @ [0xA] @ fence"
    by (simp add: fenced_verdict_def verdict_text_def fence_json_def fence_def ascii_def)
  have n: "\<not> contains verdict_text fence"
    by (simp add: verdict_text_def fence_def ascii_def)
  have w: "list_all isspace [0xA]" by (simp add: isspace_def)
  have png: "truncated_png \<noteq> []" by (simp add: truncated_png_def)
  have s1: "snd (analyze_message ?E1 ex_svc True abusive_message None) =
      [(?a, ?model, [TextPart (the (msg_text abusive_message)), ?prompt])]"
    by (simp add: analyze_request_sent analysis_parts_def ex_svc_def truthy_def
          abusive_message_def ascii_def)
  have s2: "snd (analyze_message ?E2 ex_svc True empty_message (Some truncated_png)) =
      [(?a, ?model, [ImagePart (Image truncated_png), ?prompt])]"
    using png
    by (simp add: analyze_request_sent analysis_parts_def ex_svc_def truthy_def
          empty_message_def opening_env_def ascii_def)
  have a1: "adapter_generate_content ?E1 ?a ?model
        [TextPart (the (msg_text abusive_message)), ?prompt] =
      Inr (Some (fence_json @ [0xA] @ verdict_text @ [0xA] @ fence))"
    unfolding r [symmetric] by (simp add: reply_env_def)
  have a2: "adapter_generate_content ?E2 ?a ?model [ImagePart (Image truncated_png), ?prompt] =
      Inr (Some (fence_json @ [0xA] @ verdict_text @ [0xA] @ fence))"
    unfolding r [symmetric] by (simp add: opening_env_def reply_env_def)
  have j1: "json_loads ?E1 verdict_text = Inr (verdict True insult)"
    by (simp add: reply_env_def)
  have j2: "json_loads ?E2 verdict_text = Inr (verdict True insult)"
    by (simp add: opening_env_def reply_env_def)
  have "fst (analyze_message ?E1 ex_svc True abusive_message None) = verdict True insult"
    using s1 a1 _ w w b n j1 by (rule fenced_verdict_parsed) simp
  moreover have "fst (analyze_message ?E2 ex_svc True empty_message (Some truncated_png)) =
      verdict True insult"
    using s2 a2 _ w w b n j2 by (rule fenced_verdict_parsed) simp
  ultimately show ?thesis by simp
qed

text \<open>
  C6 as stated fails when the reason of a well-formed fenced verdict holds three
  backticks: the substitution deletes them, with the space before them, inside the
  string, and the verdict returned carries another reason than the object sent.
\<close>

theorem fenced_verdict_counterexample:
  "fst (analyze_message
          (reply_env fenced_backticks backticks_stripped
             (verdict True (ascii ''uses marks''))) ex_svc True abusive_message None) =
     verdict True (ascii ''uses marks'') \<and>
   verdict True (ascii ''uses marks'') \<noteq> verdict True (ascii ''uses '' @ fence @ ascii '' marks'')"
proof -
  have "strip (sub_fences fenced_backticks) = backticks_stripped"
    by (simp add: fenced_backticks_def backticks_stripped_def ascii_def match_here_def fence_def
          fence_json_def strip_def isspace_def)
  moreover have "fenced_backticks \<noteq> []" by (simp add: fenced_backticks_def)
  ultimately show ?thesis
    by (simp add: analyze_message_def generate_content_def reply_env_def ex_svc_def truthy_def
          abusive_message_def ascii_def verdict_def fence_def)
qed

section \<open>The bank is never mutated\<close>

text \<open>
  A call writes to the store twice: it creates objects, and it shuffles the list object
  it has just created. Both writes go to \<open>Fresh\<close> addresses, so the objects of the
  module stay as they were.
\<close>

lemma module_objects_alloc: "module_objects (snd (alloc ob s)) = module_objects s"
  by (auto simp: module_objects_def alloc_def fun_eq_iff split: addr.splits)

lemma fst_alloc: "fst (alloc ob s) = Fresh (next_fresh s)"
  by (simp add: alloc_def)

lemma module_objects_shuffle_at:
  "module_objects (fst (shuffle_at (Fresh n) s g)) = module_objects s"
  by (auto simp: module_objects_def shuffle_at_def fun_eq_iff case_prod_beta
        split: addr.splits option.splits obj.splits)

lemma get_local_question_st_frame:
  "module_objects (fst (snd (get_local_question_st s g))) = module_objects s"
proof -
  have a: "module_objects (snd (alloc ob2 (fst (shuffle_at (fst (alloc ob1 s)) (snd (alloc ob1 s)) g1)))) =
        module_objects s" for ob1 ob2 g1
    by (simp add: module_objects_alloc fst_alloc module_objects_shuffle_at)
  have b: "module_objects (fst (shuffle_at (fst (alloc ob1 s)) (snd (alloc ob1 s)) g1)) =
        module_objects s" for ob1 g1
    by (simp add: module_objects_alloc fst_alloc module_objects_shuffle_at)
  show ?thesis
    unfolding get_local_question_st_def case_prod_beta Let_def
    by (simp add: a b split: sum.splits)
qed

lemma calls_frame: "module_objects (fst (calls n s g)) = module_objects s"
proof (induction n arbitrary: s g)
  case 0
  then show ?case by simp
next
  case (Suc n)
  obtain r s' g' where c: "get_local_question_st s g = (r, s', g')"
    by (cases "get_local_question_st s g")
  have "module_objects s' = module_objects s"
    using get_local_question_st_frame [of s g] c by simp
  then show ?case using Suc.IH [of s' g'] c by simp
qed

lemma those_map_Some:
  "(\<And>x. x \<in> set xs \<Longrightarrow> f x = Some (h x)) \<Longrightarrow> those (map f xs) = Some (map h xs)"
  by (induction xs) simp_all

lemma those_read_str: "those (map (read_str \<circ> VStr) xs) = Some xs"
  by (induction xs) simp_all

lemma module_objects_eqD:
  assumes "module_objects s = module_objects bank_store"
  shows "objects s TableAddr = objects bank_store TableAddr"
    and "objects s (EntryAddr i) = objects bank_store (EntryAddr i)"
    and "objects s (AnswersAddr i) = objects bank_store (AnswersAddr i)"
  using fun_cong [OF assms, of TableAddr] fun_cong [OF assms, of "EntryAddr i"]
    fun_cong [OF assms, of "AnswersAddr i"]
  by (simp_all add: module_objects_def)

lemma read_entry_bank:
  assumes m: "module_objects s = module_objects bank_store"
    and i: "i < length LOCAL_VERIFICATION_QUESTIONS"
  shows "read_entry s (VRef (EntryAddr i)) = Some (LOCAL_VERIFICATION_QUESTIONS ! i)"
  using i module_objects_eqD(2,3) [OF m]
  by (simp add: read_entry_def read_item_def read_list_def bank_store_def ascii_def those_read_str)

lemma read_bank_module:
  assumes m: "module_objects s = module_objects bank_store"
  shows "read_bank s = Some LOCAL_VERIFICATION_QUESTIONS"
proof -
  let ?B = LOCAL_VERIFICATION_QUESTIONS
  let ?table = "map (\<lambda>i. VRef (EntryAddr i)) [0..<length ?B]"
  have t: "read_list s (VRef TableAddr) = Inr ?table"
    using module_objects_eqD(1) [OF m] by (simp add: read_list_def bank_store_def)
  have "those (map (read_entry s \<circ> (\<lambda>i. VRef (EntryAddr i))) [0..<length ?B]) =
      Some (map (\<lambda>i. ?B ! i) [0..<length ?B])"
    by (rule those_map_Some) (simp add: read_entry_bank [OF m])
  then have "those (map (read_entry s) ?table) = Some ?B"
    by (simp add: map_nth)
  then show ?thesis using t by (simp add: read_bank_def)
qed


text \<open>
  On a store whose module objects are those of the loaded module, a call returns a
  question, and that question, read from the store, is the one the function on values
  returns for the same draws.
\<close>

lemma shuffle_loop_map:
  "i < length x \<Longrightarrow>
     shuffle_loop i (map f x) g = (map f (fst (shuffle_loop i x g)), snd (shuffle_loop i x g))"
proof (induction i arbitrary: x g)
  case 0
  then show ?case by simp
next
  case (Suc i)
  obtain j g' where r: "randbelow (Suc i + 1) g = (j, g')" by (cases "randbelow (Suc i + 1) g")
  have "fst (randbelow (Suc i + 1) g) < Suc i + 1" by (rule randbelow_less) simp
  with r have j: "j < length x" using Suc.prems by simp
  let ?x' = "x[Suc i := x ! j, j := x ! Suc i]"
  have "(map f x)[Suc i := map f x ! j, j := map f x ! Suc i] = map f ?x'"
    using j Suc.prems by (simp add: map_update)
  moreover have "shuffle_loop i (map f ?x') g' =
      (map f (fst (shuffle_loop i ?x' g')), snd (shuffle_loop i ?x' g'))"
    using Suc.IH [of ?x' g'] Suc.prems by simp
  ultimately show ?case using r by simp
qed

lemma shuffle_map: "shuffle (map f x) g = (map f (fst (shuffle x g)), snd (shuffle x g))"
proof (cases x)
  case Nil
  then show ?thesis by (simp add: shuffle_def)
next
  case (Cons a as)
  then show ?thesis using shuffle_loop_map [of "length as" x f g] by (simp add: shuffle_def)
qed

lemma get_local_question_st_refines:
  assumes m: "module_objects s = module_objects bank_store"
  shows "\<exists>res s' g' q. get_local_question_st s g = (Inr res, s', g') \<and>
           read_question s' res = Some q \<and> get_local_question g = (Inr q, g')"
proof -
  let ?B = LOCAL_VERIFICATION_QUESTIONS
  let ?table = "map (\<lambda>i. VRef (EntryAddr i)) [0..<length ?B]"
  obtain i g1 where r: "randbelow (length ?B) g = (i, g1)" by (cases "randbelow (length ?B) g")
  have "fst (randbelow (length ?B) g) < length ?B"
    by (rule randbelow_less) (simp add: length_bank)
  with r have i: "i < length ?B" by simp
  have ne: "?B \<noteq> []" using length_bank by auto
  let ?e = "?B ! i"
  let ?c = "bank_correct_answer ?e"
  let ?xs = "bank_incorrect_answers ?e"
  obtain opts g2 where sh: "shuffle (?xs @ [?c]) g1 = (opts, g2)"
    by (cases "shuffle (?xs @ [?c]) g1")
  have shm: "shuffle (map VStr ?xs @ [VStr ?c]) g1 = (map VStr opts, g2)"
    using shuffle_map [of VStr "?xs @ [?c]" g1] sh by simp
  let ?q = "\<lparr>question = PStr (bank_question ?e), correct_answer = PStr ?c, options = map PStr opts\<rparr>"
  have pure: "get_local_question g = (Inr ?q, g2)"
    using r sh ne by (simp add: get_local_question_def choice_def Let_def)
  have t: "read_list s (VRef TableAddr) = Inr ?table"
    using module_objects_eqD(1) [OF m] by (simp add: read_list_def bank_store_def)
  have ch: "choice ?table g = (Inr (VRef (EntryAddr i)), g1)"
    using r i ne by (simp add: choice_def)
  have e: "objects s (EntryAddr i) =
      Some (DictObj [(ascii ''question'', VStr (bank_question ?e)),
                     (ascii ''correct_answer'', VStr ?c),
                     (ascii ''incorrect_answers'', VRef (AnswersAddr i))])"
    using module_objects_eqD(2) [OF m, of i] i by (simp add: bank_store_def)
  have a: "objects s (AnswersAddr i) = Some (ListObj (map VStr ?xs))"
    using module_objects_eqD(3) [OF m, of i] i by (simp add: bank_store_def)
  let ?n = "next_fresh s"
  let ?s3 = "s\<lparr>objects := (objects s)
      (Fresh ?n \<mapsto> ListObj (map VStr opts),
       Fresh (?n + 1) \<mapsto>
         DictObj [(ascii ''question'', VStr (bank_question ?e)),
                  (ascii ''correct_answer'', VStr ?c),
                  (ascii ''options'', VRef (Fresh ?n))]),
      next_fresh := ?n + 2\<rparr>"
  have st: "get_local_question_st s g = (Inr (Fresh (?n + 1)), ?s3, g2)"
    unfolding get_local_question_st_def t
    by (simp add: ch e a shm read_item_def read_list_def alloc_def shuffle_at_def ascii_def)
  have rq: "read_question ?s3 (Fresh (?n + 1)) = Some ?q"
    by (simp add: read_question_def read_item_def read_list_def ascii_def those_read_str)
  show ?thesis using st rq pure by blast
qed

text \<open>
  C10. After any number of calls of \<open>_get_local_question\<close>, whatever the draws, the
  objects of the module are the ones the module was loaded with: the table, its 29 dicts
  and their lists of incorrect answers; read from the store, the bank is the table of
  the source, entry by entry, with the incorrect answers of every entry in their
  order. The list that is shuffled is the new object that \<open>+\<close> builds.
\<close>

theorem bank_never_mutated:
  "module_objects (fst (calls n bank_store g)) = module_objects bank_store \<and>
   read_bank (fst (calls n bank_store g)) = Some LOCAL_VERIFICATION_QUESTIONS"
  using calls_frame [of n bank_store g] read_bank_module [of "fst (calls n bank_store g)"]
  by simp


end
